theory Spec2Isabelle
  imports Main "HOL-Library.AList"
begin

section \<open>Python values and their text\<close>

text \<open>
  The server of \<^verbatim>\<open>mcp_server_mongodb/server.py\<close> passes JSON values between the
  protocol and the store and prints them; it never computes with them. A value is
  therefore one of the JSON shapes. A string is the list of the bytes of its UTF-8
  encoding. A float is carried
  as the text \<^verbatim>\<open>repr\<close> gives it, since the server only ever prints it. A dictionary is
  an association list in insertion order.
  The calls to the logger are left out: they change nothing a handler returns or keeps.
\<close>

datatype pyval =
    PNone
  | PBool bool
  | PInt int
  | PFloat string
  | PStr string
  | PList "pyval list"
  | PDict "(string \<times> pyval) list"

text \<open>Decimal digits of a natural number, as \<^verbatim>\<open>str(n)\<close> prints them.\<close>

fun nat_digits :: "nat \<Rightarrow> string" where
  "nat_digits n =
     (if n < 10 then [char_of (48 + n)]
      else nat_digits (n div 10) @ [char_of (48 + n mod 10)])"

declare nat_digits.simps [simp del]

definition int_str :: "int \<Rightarrow> string" where
  "int_str i = (if i < 0 then CHR ''-'' # nat_digits (nat (- i)) else nat_digits (nat i))"

definition hex_digit :: "nat \<Rightarrow> char" where
  "hex_digit d = (if d < 10 then char_of (48 + d) else char_of (87 + d))"

text \<open>
  \<^verbatim>\<open>repr\<close> of a string: the quote is the single quote unless the string holds a
  single quote and no double quote. Of the ASCII characters, the quote and the
  backslash are escaped, tab, newline and carriage return are written
  \<^verbatim>\<open>\t \n \r\<close>, and the other control characters \<^verbatim>\<open>\xhh\<close>.
\<close>

definition repr_char :: "char \<Rightarrow> char \<Rightarrow> string" where
  "repr_char q c =
     (if c = q \<or> c = CHR 0x5C then [CHR 0x5C, c]
      else if c = CHR 0x09 then [CHR 0x5C, CHR ''t'']
      else if c = CHR 0x0A then [CHR 0x5C, CHR ''n'']
      else if c = CHR 0x0D then [CHR 0x5C, CHR ''r'']
      else if (of_char c :: nat) < 32 \<or> (of_char c :: nat) = 127
        then [CHR 0x5C, CHR ''x'', hex_digit (of_char c div 16), hex_digit (of_char c mod 16)]
      else [c])"

text \<open>
  A code point from U+0080 on is kept when it is printable and escaped otherwise, as
  \<^verbatim>\<open>\xhh\<close> below U+0100, \<^verbatim>\<open>\uhhhh\<close> below U+10000 and \<^verbatim>\<open>\Uhhhhhhhh\<close> above.
  Which code points are printable is read off the Unicode tables of the interpreter,
  which are not part of the repository: the verdict is the parameter \<open>pr\<close>. The code
  point is decoded from its UTF-8 bytes: \<open>utf8_width\<close> is the length of the sequence a
  byte leads, \<open>utf8_value\<close> the code point of a sequence. A byte that leads no
  complete sequence belongs to no Python string; it is written as an escape of its own.
\<close>

definition utf8_width :: "nat \<Rightarrow> nat" where
  "utf8_width b =
     (if b < 0xC0 then 1 else if b < 0xE0 then 2 else if b < 0xF0 then 3
      else if b < 0xF8 then 4 else 1)"

fun utf8_value :: "string \<Rightarrow> nat" where
  "utf8_value [a, b] = (of_char a mod 32) * 64 + of_char b mod 64"
| "utf8_value [a, b, c] = (of_char a mod 16) * 4096 + (of_char b mod 64) * 64 + of_char c mod 64"
| "utf8_value [a, b, c, d] =
     (of_char a mod 8) * 262144 + (of_char b mod 64) * 4096 + (of_char c mod 64) * 64
     + of_char d mod 64"
| "utf8_value [a] = of_char a"
| "utf8_value s = 0"

definition hex_digits :: "nat \<Rightarrow> nat \<Rightarrow> string" where
  "hex_digits k n = map (\<lambda>i. hex_digit (n div 16 ^ i mod 16)) (rev [0..<k])"

definition escape_code :: "nat \<Rightarrow> string" where
  "escape_code cp =
     (if cp < 0x100 then [CHR 0x5C, CHR ''x''] @ hex_digits 2 cp
      else if cp < 0x10000 then [CHR 0x5C, CHR ''u''] @ hex_digits 4 cp
      else [CHR 0x5C, CHR ''U''] @ hex_digits 8 cp)"

function repr_chars :: "(nat \<Rightarrow> bool) \<Rightarrow> char \<Rightarrow> string \<Rightarrow> string" where
  "repr_chars pr q [] = []"
| "repr_chars pr q (c # s) =
     (if (of_char c :: nat) < 128 then repr_char q c @ repr_chars pr q s
      else if 1 < utf8_width (of_char c) \<and> utf8_width (of_char c) \<le> length (c # s)
        then (if pr (utf8_value (take (utf8_width (of_char c)) (c # s)))
              then take (utf8_width (of_char c)) (c # s)
              else escape_code (utf8_value (take (utf8_width (of_char c)) (c # s))))
             @ repr_chars pr q (drop (utf8_width (of_char c)) (c # s))
      else escape_code (of_char c) @ repr_chars pr q s)"
  by pat_completeness auto
termination
  by (relation "measure (\<lambda>(pr, q, s). length s)") auto

definition repr_str :: "(nat \<Rightarrow> bool) \<Rightarrow> string \<Rightarrow> string" where
  "repr_str pr s =
     (let q = (if CHR 0x27 \<in> set s \<and> CHR 0x22 \<notin> set s then CHR 0x22 else CHR 0x27)
      in q # repr_chars pr q s @ [q])"

text \<open>\<^verbatim>\<open>sep.join(xs)\<close>.\<close>

fun py_join :: "string \<Rightarrow> string list \<Rightarrow> string" where
  "py_join sep [] = []"
| "py_join sep [x] = x"
| "py_join sep (x # y # ys) = x @ sep @ py_join sep (y # ys)"

fun py_repr :: "(nat \<Rightarrow> bool) \<Rightarrow> pyval \<Rightarrow> string" where
  "py_repr pr PNone = ''None''"
| "py_repr pr (PBool b) = (if b then ''True'' else ''False'')"
| "py_repr pr (PInt i) = int_str i"
| "py_repr pr (PFloat r) = r"
| "py_repr pr (PStr s) = repr_str pr s"
| "py_repr pr (PList xs) = ''['' @ py_join '', '' (map (py_repr pr) xs) @ '']''"
| "py_repr pr (PDict kvs) =
     ''{'' @ py_join '', '' (map (\<lambda>(k, v). repr_str pr k @ '': '' @ py_repr pr v) kvs)
     @ ''}''"

text \<open>\<^verbatim>\<open>str(v)\<close>, which is also what an f-string field \<^verbatim>\<open>{v}\<close> prints.\<close>

fun py_str :: "(nat \<Rightarrow> bool) \<Rightarrow> pyval \<Rightarrow> string" where
  "py_str pr (PStr s) = s"
| "py_str pr v = py_repr pr v"

text \<open>
  \<^verbatim>\<open>s.replace(old, new)\<close>: every occurrence of \<open>old\<close>, found from the left and not
  overlapping, is replaced.
\<close>

function py_replace :: "string \<Rightarrow> string \<Rightarrow> string \<Rightarrow> string" where
  "py_replace [] old new = (if old = [] then new else [])"
| "py_replace (c # s) old new =
     (if old = [] then new @ c # py_replace s old new
      else if take (length old) (c # s) = old
        then new @ py_replace (drop (length old) (c # s)) old new
      else c # py_replace s old new)"
  by pat_completeness auto
termination
  by (relation "measure (\<lambda>(s, old, new). length s)") auto

text \<open>The exceptions the handlers can meet, with \<^verbatim>\<open>str(e)\<close>.\<close>

datatype py_exn =
    ValueError string
  | KeyError string
  | AttributeError string
  | Fault string

text \<open>
  \<open>Fault m\<close> is any other \<^verbatim>\<open>Exception\<close> raised by a collaborator (the store driver,
  the JSON conversion, the session), \<open>m\<close> being its \<^verbatim>\<open>str\<close>. \<^verbatim>\<open>str\<close> of a
  \<^verbatim>\<open>KeyError\<close> is the \<^verbatim>\<open>repr\<close> of the missing key.
\<close>

fun exn_str :: "(nat \<Rightarrow> bool) \<Rightarrow> py_exn \<Rightarrow> string" where
  "exn_str pr (ValueError m) = m"
| "exn_str pr (KeyError k) = repr_str pr k"
| "exn_str pr (AttributeError m) = m"
| "exn_str pr (Fault m) = m"

definition getitem :: "(string \<times> pyval) list \<Rightarrow> string \<Rightarrow> py_exn + pyval" where
  "getitem d k = (case map_of d k of None \<Rightarrow> Inl (KeyError k) | Some v \<Rightarrow> Inr v)"

fun type_name :: "pyval \<Rightarrow> string" where
  "type_name PNone = ''NoneType''"
| "type_name (PBool b) = ''bool''"
| "type_name (PInt i) = ''int''"
| "type_name (PFloat r) = ''float''"
| "type_name (PStr s) = ''str''"
| "type_name (PList xs) = ''list''"
| "type_name (PDict kvs) = ''dict''"

text \<open>\<^verbatim>\<open>query.get(k, default)\<close>: only a dictionary has the method.\<close>

fun py_get :: "pyval \<Rightarrow> string \<Rightarrow> pyval \<Rightarrow> py_exn + pyval" where
  "py_get (PDict kvs) k dflt = (case map_of kvs k of None \<Rightarrow> Inr dflt | Some v \<Rightarrow> Inr v)"
| "py_get v k dflt =
     Inl (AttributeError ([CHR 0x27] @ type_name v @ [CHR 0x27] @ '' object has no attribute ''
            @ [CHR 0x27] @ ''get'' @ [CHR 0x27]))"

section \<open>The insight ledger and its memo\<close>

definition nl :: char where
  "nl = CHR 0x0A"

text \<open>The bar-chart sign U+1F4CA of the memo's title, in UTF-8.\<close>

definition chart :: string where
  "chart = [CHR 0xF0, CHR 0x9F, CHR 0x93, CHR 0x8A]"

text \<open>
  \<^verbatim>\<open>MongoDatabase._synthesize_memo\<close>, as a function of \<^verbatim>\<open>self.insights\<close>. The
  ledger is annotated \<^verbatim>\<open>list[str]\<close>, but \<^verbatim>\<open>append-insight\<close> appends whatever value the
  call carries, so an entry is any value and its bullet prints it as an f-string does.
  \<open>pr\<close> is the verdict on printable code points that \<^verbatim>\<open>repr\<close> needs; it matters
  only to entries that are lists or dictionaries.
\<close>

definition synthesize_memo :: "(nat \<Rightarrow> bool) \<Rightarrow> pyval list \<Rightarrow> string" where
  "synthesize_memo pr ledger =
     (if ledger = [] then ''No business insights have been discovered yet.''
      else
        let bullets = py_join [nl] (map (\<lambda>insight. ''- '' @ py_str pr insight) ledger);
            memo = chart @ '' Business Intelligence Memo '' @ chart @ [nl, nl];
            memo = memo @ ''Key Insights Discovered:'' @ [nl, nl];
            memo = memo @ bullets
        in if length ledger > 1
           then (memo @ [nl] @ ''Summary:'' @ [nl])
                @ ''Analysis has revealed '' @ nat_digits (length ledger)
                @ '' key business insights that suggest opportunities for strategic optimization and growth.''
           else memo)"

text \<open>The lines of a text, as \<^verbatim>\<open>text.split("\n")\<close> gives them.\<close>

fun lines_of :: "string \<Rightarrow> string list" where
  "lines_of [] = [[]]"
| "lines_of (c # s) =
     (if c = nl then [] # lines_of s
      else (case lines_of s of [] \<Rightarrow> [[c]] | l # ls \<Rightarrow> (c # l) # ls))"

text \<open>
  What it is for a text to be the decimal numeral of a number: digits only, no leading
  zero, and the number as its value.
\<close>

definition decimal_value :: "string \<Rightarrow> nat" where
  "decimal_value s = foldl (\<lambda>a c. 10 * a + (of_char c - 48)) 0 s"

definition is_decimal :: "string \<Rightarrow> nat \<Rightarrow> bool" where
  "is_decimal s n =
     (s \<noteq> [] \<and> list_all (\<lambda>c. 48 \<le> (of_char c :: nat) \<and> (of_char c :: nat) \<le> 57) s
      \<and> (length s = 1 \<or> hd s \<noteq> CHR ''0'') \<and> decimal_value s = n)"

section \<open>The collaborators: backing store and session\<close>

text \<open>
  The document store (pymongo) and the protocol session are not part of the server.
  They are taken as a record of the primitives the server calls, over a store state
  \<open>'w\<close>, the store's native values \<open>'n\<close> (documents and generated identifiers) and a
  session state \<open>'s\<close>. Each primitive may raise. Every theorem below holds for all
  such records. The record also carries \<open>isprintable\<close>, the interpreter's verdict on
  printable code points.
  \<^item> \<open>db_getitem\<close> is \<^verbatim>\<open>self.db[collection_name]\<close>, which raises on a bad name;
  \<^item> \<open>coll_find\<close> is \<^verbatim>\<open>list(collection.find(query))\<close>, \<open>coll_aggregate\<close> likewise;
  \<^item> \<open>json_roundtrip\<close> is \<^verbatim>\<open>json.loads(json_util.dumps(results))\<close>;
  \<^item> \<open>coll_insert_many\<close> and \<open>coll_insert_one\<close> return \<^verbatim>\<open>inserted_ids\<close> and
    \<^verbatim>\<open>inserted_id\<close>, and \<open>id_str\<close> is \<^verbatim>\<open>str\<close> on an identifier;
  \<^item> \<open>coll_update_many\<close> and \<open>coll_delete_many\<close> return \<^verbatim>\<open>modified_count\<close> and
    \<^verbatim>\<open>deleted_count\<close>;
  \<^item> \<open>send_resource_updated\<close> is the session's notification primitive.
\<close>

record ('w, 'n, 's) env =
  db_getitem :: "'w \<Rightarrow> pyval \<Rightarrow> py_exn option"
  coll_find :: "'w \<Rightarrow> pyval \<Rightarrow> pyval \<Rightarrow> (py_exn + 'n list) \<times> 'w"
  coll_aggregate :: "'w \<Rightarrow> pyval \<Rightarrow> pyval \<Rightarrow> (py_exn + 'n list) \<times> 'w"
  json_roundtrip :: "'n list \<Rightarrow> py_exn + pyval list"
  coll_insert_many :: "'w \<Rightarrow> pyval \<Rightarrow> pyval list \<Rightarrow> (py_exn + 'n list) \<times> 'w"
  coll_insert_one :: "'w \<Rightarrow> pyval \<Rightarrow> pyval \<Rightarrow> (py_exn + 'n) \<times> 'w"
  id_str :: "'n \<Rightarrow> string"
  coll_update_many :: "'w \<Rightarrow> pyval \<Rightarrow> pyval \<Rightarrow> pyval \<Rightarrow> (py_exn + int) \<times> 'w"
  coll_delete_many :: "'w \<Rightarrow> pyval \<Rightarrow> pyval \<Rightarrow> (py_exn + int) \<times> 'w"
  db_create_collection :: "'w \<Rightarrow> pyval \<Rightarrow> py_exn option \<times> 'w"
  db_list_collection_names :: "'w \<Rightarrow> (py_exn + string list) \<times> 'w"
  send_resource_updated :: "'s \<Rightarrow> string \<Rightarrow> py_exn option \<times> 's"
  isprintable :: "nat \<Rightarrow> bool"

section \<open>The gateway\<close>

text \<open>
  \<^verbatim>\<open>MongoDatabase._execute_query(query, operation, collection_name)\<close> on the store
  state. Its \<^verbatim>\<open>except\<close> clause logs and raises again, so a fault leaves as it came.
\<close>

definition execute_query ::
  "('w, 'n, 's) env \<Rightarrow> 'w \<Rightarrow> pyval \<Rightarrow> string \<Rightarrow> pyval \<Rightarrow> (py_exn + pyval list) \<times> 'w"
where
  "execute_query env w query operation collection_name =
     (case db_getitem env w collection_name of
        Some e \<Rightarrow> (Inl e, w)
      | None \<Rightarrow>
          if operation = ''find'' then
            (case coll_find env w collection_name query of
               (Inl e, w') \<Rightarrow> (Inl e, w')
             | (Inr results, w') \<Rightarrow> (json_roundtrip env results, w'))
          else if operation = ''aggregate'' then
            (case py_get query ''pipeline'' (PList []) of
               Inl e \<Rightarrow> (Inl e, w)
             | Inr pipeline \<Rightarrow>
                 (case coll_aggregate env w collection_name pipeline of
                    (Inl e, w') \<Rightarrow> (Inl e, w')
                  | (Inr results, w') \<Rightarrow> (json_roundtrip env results, w')))
          else if operation = ''insert'' then
            (case query of
               PList docs \<Rightarrow>
                 (case coll_insert_many env w collection_name docs of
                    (Inl e, w') \<Rightarrow> (Inl e, w')
                  | (Inr inserted_ids, w') \<Rightarrow>
                      (Inr [PDict [(''inserted_ids'',
                              PList (map (\<lambda>i. PStr (id_str env i)) inserted_ids))]], w'))
             | _ \<Rightarrow>
                 (case coll_insert_one env w collection_name query of
                    (Inl e, w') \<Rightarrow> (Inl e, w')
                  | (Inr inserted_id, w') \<Rightarrow>
                      (Inr [PDict [(''inserted_id'', PStr (id_str env inserted_id))]], w')))
          else if operation = ''update'' then
            (case py_get query ''filter'' (PDict []) of
               Inl e \<Rightarrow> (Inl e, w)
             | Inr filter_query \<Rightarrow>
                 (case py_get query ''update'' (PDict []) of
                    Inl e \<Rightarrow> (Inl e, w)
                  | Inr update_query \<Rightarrow>
                      (case coll_update_many env w collection_name filter_query update_query of
                         (Inl e, w') \<Rightarrow> (Inl e, w')
                       | (Inr modified_count, w') \<Rightarrow>
                           (Inr [PDict [(''modified_count'', PInt modified_count)]], w'))))
          else if operation = ''delete'' then
            (case coll_delete_many env w collection_name query of
               (Inl e, w') \<Rightarrow> (Inl e, w')
             | (Inr deleted_count, w') \<Rightarrow>
                 (Inr [PDict [(''deleted_count'', PInt deleted_count)]], w'))
          else if operation = ''create_collection'' then
            (case db_create_collection env w collection_name of
               (Some e, w') \<Rightarrow> (Inl e, w')
             | (None, w') \<Rightarrow>
                 (Inr [PDict [(''message'',
                         PStr (''Collection '' @ py_str (isprintable env) collection_name
                               @ '' created successfully''))]], w'))
          else (Inl (ValueError (''Unsupported operation: '' @ operation)), w))"

text \<open>
  Modelled from the spec: the store's \<^verbatim>\<open>updateMany\<close> and \<^verbatim>\<open>deleteMany\<close> of the
  collaborator interface (pymongo's \<^verbatim>\<open>update_many\<close> and \<^verbatim>\<open>delete_many\<close>, which are
  not in the repository). Their contract is stated over a view of the store: \<open>docs w c\<close>
  are the documents of collection \<open>c\<close> in store \<open>w\<close>, \<open>matches f d\<close> says that filter
  \<open>f\<close> selects document \<open>d\<close>, and \<open>apply u d\<close> is \<open>d\<close> after the update operations
  \<open>u\<close>. A multi-document store updates every document the filter selects and counts
  those it changed, and deletes every document the filter selects and counts them.
\<close>

definition multi_document_store ::
  "('w, 'n, 's) env \<Rightarrow> ('w \<Rightarrow> pyval \<Rightarrow> 'd list) \<Rightarrow> (pyval \<Rightarrow> 'd \<Rightarrow> bool)
     \<Rightarrow> (pyval \<Rightarrow> 'd \<Rightarrow> 'd) \<Rightarrow> bool"
where
  "multi_document_store env docs matches apply =
     ((\<forall>w c f u n w'. coll_update_many env w c f u = (Inr n, w') \<longrightarrow>
         docs w' c = map (\<lambda>d. if matches f d then apply u d else d) (docs w c)
         \<and> n = int (length (filter (\<lambda>d. matches f d \<and> apply u d \<noteq> d) (docs w c))))
      \<and> (\<forall>w c f n w'. coll_delete_many env w c f = (Inr n, w') \<longrightarrow>
         docs w' c = filter (\<lambda>d. \<not> matches f d) (docs w c)
         \<and> n = int (length (filter (matches f) (docs w c)))))"

section \<open>The server\<close>

text \<open>
  What \<^verbatim>\<open>main\<close> holds while it serves: the \<^verbatim>\<open>MongoDatabase\<close> object (the store handle
  \<open>db\<close> and the ledger \<open>insights\<close>) and the session of the request context. \<open>effects\<close>
  records, in the order they happen, the three things a handler does with the ledger
  and the memo resource: an entry appended, the memo synthesized (with its text), and
  a resource-updated notification sent (with its address).
\<close>

datatype effect =
    LedgerAppend pyval
  | MemoSynthesized string
  | ResourceUpdated string

record ('w, 's) server =
  db :: 'w
  insights :: "pyval list"
  session :: 's
  effects :: "effect list"

text \<open>A \<^verbatim>\<open>pydantic.AnyUrl\<close>, by the two things the handler reads of it.\<close>

record any_url =
  scheme :: string
  url_str :: string

text \<open>
  \<^verbatim>\<open>handle_read_resource\<close>. It has no \<^verbatim>\<open>try\<close>: \<open>Inl\<close> is an exception that leaves
  the handler.
\<close>

definition handle_read_resource ::
  "('w, 'n, 's) env \<Rightarrow> ('w, 's) server \<Rightarrow> any_url \<Rightarrow> (py_exn + string) \<times> ('w, 's) server"
where
  "handle_read_resource env st uri =
     (if scheme uri \<noteq> ''memo''
      then (Inl (ValueError (''Unsupported URI scheme: '' @ scheme uri)), st)
      else
        let path = py_replace (url_str uri) ''memo://'' []
        in if path = [] \<or> path \<noteq> ''insights''
           then (Inl (ValueError (''Unknown resource path: '' @ path)), st)
           else
             let memo = synthesize_memo (isprintable env) (insights st)
             in (Inr memo, st\<lparr>effects := effects st @ [MemoSynthesized memo]\<rparr>))"

text \<open>
  The tools of \<^verbatim>\<open>handle_list_tools\<close>: name, properties and required keys. The schema
  of \<^verbatim>\<open>list-collections\<close> has no \<^verbatim>\<open>required\<close> entry: it requires nothing.
\<close>

record tool =
  tool_name :: string
  properties :: "string list"
  required :: "string list"

definition handle_list_tools :: "tool list" where
  "handle_list_tools =
     [\<lparr>tool_name = ''find'', properties = [''collection'', ''query''],
        required = [''collection'', ''query'']\<rparr>,
      \<lparr>tool_name = ''aggregate'', properties = [''collection'', ''pipeline''],
        required = [''collection'', ''pipeline'']\<rparr>,
      \<lparr>tool_name = ''insert'', properties = [''collection'', ''documents''],
        required = [''collection'', ''documents'']\<rparr>,
      \<lparr>tool_name = ''update'', properties = [''collection'', ''filter'', ''update''],
        required = [''collection'', ''filter'', ''update'']\<rparr>,
      \<lparr>tool_name = ''delete'', properties = [''collection'', ''filter''],
        required = [''collection'', ''filter'']\<rparr>,
      \<lparr>tool_name = ''create-collection'', properties = [''name''], required = [''name'']\<rparr>,
      \<lparr>tool_name = ''list-collections'', properties = [], required = []\<rparr>,
      \<lparr>tool_name = ''append-insight'', properties = [''insight''],
        required = [''insight'']\<rparr>]"

datatype content =
    TextContent string
  | ImageContent string
  | EmbeddedResource string

text \<open>
  A gateway call from the tool handler, and the text content made of its result
  (\<^verbatim>\<open>str(results)\<close>).
\<close>

definition run_query ::
  "('w, 'n, 's) env \<Rightarrow> ('w, 's) server \<Rightarrow> pyval \<Rightarrow> string \<Rightarrow> pyval
     \<Rightarrow> (py_exn + content list) \<times> ('w, 's) server"
where
  "run_query env st query operation collection_name =
     (case execute_query env (db st) query operation collection_name of
        (Inl e, w) \<Rightarrow> (Inl e, st\<lparr>db := w\<rparr>)
      | (Inr results, w) \<Rightarrow> (Inr [TextContent (py_str (isprintable env) (PList results))], st\<lparr>db := w\<rparr>))"

text \<open>
  The body of the \<^verbatim>\<open>try\<close> of \<^verbatim>\<open>handle_call_tool\<close>: \<open>Inl\<close> is an exception raised
  inside it. \<^verbatim>\<open>not arguments\<close> holds of \<^verbatim>\<open>None\<close> and of the empty dictionary. The
  subscripts of a call are evaluated from left to right, before the call.
\<close>

definition call_tool_try ::
  "('w, 'n, 's) env \<Rightarrow> ('w, 's) server \<Rightarrow> string \<Rightarrow> (string \<times> pyval) list option
     \<Rightarrow> (py_exn + content list) \<times> ('w, 's) server"
where
  "call_tool_try env st name arguments =
     (if name = ''list-collections'' then
        (case db_list_collection_names env (db st) of
           (Inl e, w) \<Rightarrow> (Inl e, st\<lparr>db := w\<rparr>)
         | (Inr collections, w) \<Rightarrow>
             (Inr [TextContent (py_str (isprintable env) (PList (map PStr collections)))],
              st\<lparr>db := w\<rparr>))
      else if name = ''append-insight'' then
        (case arguments of
           None \<Rightarrow> (Inl (ValueError ''Missing insight argument''), st)
         | Some a \<Rightarrow>
             if a = [] \<or> map_of a ''insight'' = None
             then (Inl (ValueError ''Missing insight argument''), st)
             else
               (case getitem a ''insight'' of
                  Inl e \<Rightarrow> (Inl e, st)
                | Inr insight \<Rightarrow>
                    let st1 = st\<lparr>insights := insights st @ [insight],
                                 effects := effects st @ [LedgerAppend insight]\<rparr>;
                        st2 = st1\<lparr>effects := effects st1
                                 @ [MemoSynthesized
                                      (synthesize_memo (isprintable env) (insights st1))]\<rparr>
                    in (case send_resource_updated env (session st2) ''memo://insights'' of
                          (Some e, s) \<Rightarrow> (Inl e, st2\<lparr>session := s\<rparr>)
                        | (None, s) \<Rightarrow>
                            (Inr [TextContent ''Insight added to memo''],
                             st2\<lparr>session := s,
                                 effects := effects st2 @ [ResourceUpdated ''memo://insights'']\<rparr>))))
      else
        (case arguments of
           None \<Rightarrow> (Inl (ValueError ''Missing arguments''), st)
         | Some a \<Rightarrow>
             if a = [] then (Inl (ValueError ''Missing arguments''), st)
             else if name = ''find'' then
               (case getitem a ''query'' of
                  Inl e \<Rightarrow> (Inl e, st)
                | Inr query \<Rightarrow>
                    (case getitem a ''collection'' of
                       Inl e \<Rightarrow> (Inl e, st)
                     | Inr collection \<Rightarrow> run_query env st query ''find'' collection))
             else if name = ''aggregate'' then
               (case getitem a ''pipeline'' of
                  Inl e \<Rightarrow> (Inl e, st)
                | Inr pipeline \<Rightarrow>
                    (case getitem a ''collection'' of
                       Inl e \<Rightarrow> (Inl e, st)
                     | Inr collection \<Rightarrow>
                         run_query env st (PDict [(''pipeline'', pipeline)]) ''aggregate''
                           collection))
             else if name = ''insert'' then
               (case getitem a ''documents'' of
                  Inl e \<Rightarrow> (Inl e, st)
                | Inr documents \<Rightarrow>
                    (case getitem a ''collection'' of
                       Inl e \<Rightarrow> (Inl e, st)
                     | Inr collection \<Rightarrow> run_query env st documents ''insert'' collection))
             else if name = ''update'' then
               (case getitem a ''filter'' of
                  Inl e \<Rightarrow> (Inl e, st)
                | Inr filter_query \<Rightarrow>
                    (case getitem a ''update'' of
                       Inl e \<Rightarrow> (Inl e, st)
                     | Inr update_query \<Rightarrow>
                         (case getitem a ''collection'' of
                            Inl e \<Rightarrow> (Inl e, st)
                          | Inr collection \<Rightarrow>
                              run_query env st
                                (PDict [(''filter'', filter_query), (''update'', update_query)])
                                ''update'' collection)))
             else if name = ''delete'' then
               (case getitem a ''filter'' of
                  Inl e \<Rightarrow> (Inl e, st)
                | Inr filter_query \<Rightarrow>
                    (case getitem a ''collection'' of
                       Inl e \<Rightarrow> (Inl e, st)
                     | Inr collection \<Rightarrow> run_query env st filter_query ''delete'' collection))
             else if name = ''create-collection'' then
               (case getitem a ''name'' of
                  Inl e \<Rightarrow> (Inl e, st)
                | Inr collection \<Rightarrow>
                    run_query env st (PDict []) ''create_collection'' collection)
             else (Inl (ValueError (''Unknown tool: '' @ name)), st)))"

text \<open>
  \<^verbatim>\<open>handle_call_tool\<close>: the \<^verbatim>\<open>try\<close> with its \<^verbatim>\<open>except Exception\<close>. What the
  body did to the ledger, the store and the session before it raised stays done.
\<close>

definition handle_call_tool ::
  "('w, 'n, 's) env \<Rightarrow> ('w, 's) server \<Rightarrow> string \<Rightarrow> (string \<times> pyval) list option
     \<Rightarrow> content list \<times> ('w, 's) server"
where
  "handle_call_tool env st name arguments =
     (case call_tool_try env st name arguments of
        (Inl e, st') \<Rightarrow> ([TextContent (''Error: '' @ exn_str (isprintable env) e)], st')
      | (Inr result, st') \<Rightarrow> (result, st'))"

section \<open>An in-memory store to run the server on\<close>

text \<open>
  One instance of the collaborator record, small enough to evaluate: a store is a list
  of named collections, a filter matches the documents that carry each of its fields,
  an update sets the fields listed under \<^verbatim>\<open>$set\<close>, and generated identifiers are
  integers counted up within a collection. The session keeps the addresses it was
  sent, and every code point above U+00A0 is taken as printable. The theorems about the server hold for every collaborator record; this one
  only serves to run the server on concrete calls.
\<close>

type_synonym mem_db = "(string \<times> pyval list) list"

definition mem_docs :: "mem_db \<Rightarrow> pyval \<Rightarrow> pyval list" where
  "mem_docs w c =
     (case c of
        PStr n \<Rightarrow> (case map_of w n of None \<Rightarrow> [] | Some ds \<Rightarrow> ds)
      | _ \<Rightarrow> [])"

definition mem_put :: "mem_db \<Rightarrow> pyval \<Rightarrow> pyval list \<Rightarrow> mem_db" where
  "mem_put w c ds = (case c of PStr n \<Rightarrow> AList.update n ds w | _ \<Rightarrow> w)"

fun mem_matches :: "pyval \<Rightarrow> pyval \<Rightarrow> bool" where
  "mem_matches (PDict f) (PDict d) = list_all (\<lambda>(k, v). map_of d k = Some v) f"
| "mem_matches f d = False"

fun mem_is_dict :: "pyval \<Rightarrow> bool" where
  "mem_is_dict (PDict d) = True"
| "mem_is_dict v = False"

fun mem_set_fields :: "(string \<times> pyval) list \<Rightarrow> pyval \<Rightarrow> pyval" where
  "mem_set_fields sets (PDict d) = PDict (fold (\<lambda>(k, v). AList.update k v) sets d)"
| "mem_set_fields sets v = v"

definition mem_getitem :: "mem_db \<Rightarrow> pyval \<Rightarrow> py_exn option" where
  "mem_getitem w c =
     (case c of PStr n \<Rightarrow> None | _ \<Rightarrow> Some (Fault ''name must be an instance of str''))"

definition mem_find :: "mem_db \<Rightarrow> pyval \<Rightarrow> pyval \<Rightarrow> (py_exn + pyval list) \<times> mem_db" where
  "mem_find w c q =
     (if mem_is_dict q then (Inr (filter (mem_matches q) (mem_docs w c)), w)
      else (Inl (Fault ''filter must be an instance of dict''), w))"

definition mem_aggregate :: "mem_db \<Rightarrow> pyval \<Rightarrow> pyval \<Rightarrow> (py_exn + pyval list) \<times> mem_db" where
  "mem_aggregate w c pipeline =
     (if pipeline = PList [] then (Inr (mem_docs w c), w)
      else (Inl (Fault ''unsupported pipeline''), w))"

definition mem_insert_many ::
  "mem_db \<Rightarrow> pyval \<Rightarrow> pyval list \<Rightarrow> (py_exn + pyval list) \<times> mem_db"
where
  "mem_insert_many w c docs =
     (if docs = [] then (Inl (Fault ''documents must be a non-empty list''), w)
      else if \<not> list_all mem_is_dict docs
        then (Inl (Fault ''document must be an instance of dict''), w)
      else
        let old = mem_docs w c;
            ids = map (\<lambda>i. PInt (int i)) [length old ..< length old + length docs];
            new = map (\<lambda>(i, d). mem_set_fields [(''_id'', i)] d) (zip ids docs)
        in (Inr ids, mem_put w c (old @ new)))"

definition mem_insert_one :: "mem_db \<Rightarrow> pyval \<Rightarrow> pyval \<Rightarrow> (py_exn + pyval) \<times> mem_db" where
  "mem_insert_one w c doc =
     (if \<not> mem_is_dict doc then (Inl (Fault ''document must be an instance of dict''), w)
      else
        let old = mem_docs w c;
            i = PInt (int (length old))
        in (Inr i, mem_put w c (old @ [mem_set_fields [(''_id'', i)] doc])))"

definition mem_update_many ::
  "mem_db \<Rightarrow> pyval \<Rightarrow> pyval \<Rightarrow> pyval \<Rightarrow> (py_exn + int) \<times> mem_db"
where
  "mem_update_many w c f u =
     (case u of
        PDict [(op, PDict sets)] \<Rightarrow>
          if op = ''$set'' then
            let old = mem_docs w c;
                new = map (\<lambda>d. if mem_matches f d then mem_set_fields sets d else d) old
            in (Inr (int (length (filter (\<lambda>d. mem_matches f d \<and> mem_set_fields sets d \<noteq> d)
                                   old))),
                mem_put w c new)
          else (Inl (Fault ''unsupported update''), w)
      | _ \<Rightarrow> (Inl (Fault ''unsupported update''), w))"

text \<open>What an update does to one document of this store.\<close>

definition mem_apply :: "pyval \<Rightarrow> pyval \<Rightarrow> pyval" where
  "mem_apply u d =
     (case u of
        PDict [(op, PDict sets)] \<Rightarrow> if op = ''$set'' then mem_set_fields sets d else d
      | _ \<Rightarrow> d)"

definition mem_delete_many :: "mem_db \<Rightarrow> pyval \<Rightarrow> pyval \<Rightarrow> (py_exn + int) \<times> mem_db" where
  "mem_delete_many w c f =
     (let old = mem_docs w c;
          kept = filter (\<lambda>d. \<not> mem_matches f d) old
      in (Inr (int (length (filter (mem_matches f) old))), mem_put w c kept))"

definition mem_create_collection :: "mem_db \<Rightarrow> pyval \<Rightarrow> py_exn option \<times> mem_db" where
  "mem_create_collection w c =
     (case c of
        PStr n \<Rightarrow>
          if map_of w n = None then (None, w @ [(n, [])])
          else (Some (Fault (''collection '' @ n @ '' already exists'')), w)
      | _ \<Rightarrow> (Some (Fault ''name must be an instance of str''), w))"

definition mem_env :: "(mem_db, pyval, string list) env" where
  "mem_env =
     \<lparr>db_getitem = mem_getitem,
      coll_find = mem_find,
      coll_aggregate = mem_aggregate,
      json_roundtrip = Inr,
      coll_insert_many = mem_insert_many,
      coll_insert_one = mem_insert_one,
      id_str = py_str (\<lambda>cp. 0xA0 < cp),
      coll_update_many = mem_update_many,
      coll_delete_many = mem_delete_many,
      db_create_collection = mem_create_collection,
      db_list_collection_names = (\<lambda>w. (Inr (map fst w), w)),
      send_resource_updated = (\<lambda>s uri. (None, s @ [uri])),
      isprintable = (\<lambda>cp. 0xA0 < cp)\<rparr>"

text \<open>The same store behind a session whose stream is closed: every send raises.\<close>

definition closed_env :: "(mem_db, pyval, string list) env" where
  "closed_env = mem_env\<lparr>send_resource_updated := (\<lambda>s uri. (Some (Fault ''Connection closed''), s))\<rparr>"

definition mem_server :: "mem_db \<Rightarrow> pyval list \<Rightarrow> (mem_db, string list) server" where
  "mem_server w ledger = \<lparr>db = w, insights = ledger, session = [], effects = []\<rparr>"

text \<open>A store with one collection of three documents, two of them widgets.\<close>

definition demo_db :: mem_db where
  "demo_db =
     [(''inventory'',
       [PDict [(''product'', PStr ''Widget''), (''stock'', PInt 3)],
        PDict [(''product'', PStr ''Gadget''), (''stock'', PInt 1)],
        PDict [(''product'', PStr ''Widget''), (''stock'', PInt 5)]])]"

section \<open>The memo\<close>

lemma lines_of_nonempty: "lines_of s \<noteq> []"
  by (induction s) (auto split: list.splits)

lemma lines_of_plain: "nl \<notin> set a \<Longrightarrow> lines_of a = [a]"
  by (induction a) auto

lemma lines_of_break: "lines_of (a @ nl # r) = lines_of a @ lines_of r"
proof (induction a)
  case Nil
  show ?case by simp
next
  case (Cons c a)
  show ?case
  proof (cases "c = nl")
    case True
    with Cons show ?thesis by simp
  next
    case False
    obtain l ls where l: "lines_of a = l # ls"
      using lines_of_nonempty [of a] by (cases "lines_of a") auto
    with False Cons show ?thesis by simp
  qed
qed

lemma lines_of_join:
  "xs \<noteq> [] \<Longrightarrow> lines_of (py_join [nl] xs) = concat (map lines_of xs)"
  by (induction "[nl]" xs rule: py_join.induct) (auto simp: lines_of_break)

lemma lines_of_join_tail:
  "xs \<noteq> [] \<Longrightarrow> lines_of (py_join [nl] xs @ nl # r) = concat (map lines_of xs) @ lines_of r"
  by (induction "[nl]" xs rule: py_join.induct) (auto simp: lines_of_break)

lemma nl_chart: "nl \<notin> set chart"
  by (simp add: nl_def chart_def)

lemma memo_shape:
  "ledger \<noteq> [] \<Longrightarrow> synthesize_memo pr ledger =
     chart @ '' Business Intelligence Memo '' @ chart @ [nl, nl]
     @ ''Key Insights Discovered:'' @ [nl, nl]
     @ py_join [nl] (map (\<lambda>insight. ''- '' @ py_str pr insight) ledger)
     @ (if 1 < length ledger
        then [nl] @ ''Summary:'' @ [nl] @ ''Analysis has revealed '' @ nat_digits (length ledger)
             @ '' key business insights that suggest opportunities for strategic optimization and growth.''
        else [])"
  by (simp add: synthesize_memo_def Let_def)

lemma digit_char: "k < 10 \<Longrightarrow> of_char (char_of (48 + k :: nat)) = 48 + k"
  by (simp add: of_char_of)

lemma decimal_value_snoc: "decimal_value (s @ [c]) = 10 * decimal_value s + (of_char c - 48)"
  by (simp add: decimal_value_def)

lemma is_decimal_positive: "is_decimal s n \<Longrightarrow> 0 < n \<Longrightarrow> hd s \<noteq> CHR ''0''"
proof -
  assume d: "is_decimal s n" and n: "0 < n"
  show "hd s \<noteq> CHR ''0''"
  proof (cases "length s = 1")
    case True
    then obtain c where s: "s = [c]" by (cases s) auto
    with d have "of_char c - 48 = n" by (simp add: is_decimal_def decimal_value_def)
    with n have "c \<noteq> CHR ''0''" by auto
    with s show ?thesis by simp
  next
    case False
    with d show ?thesis by (simp add: is_decimal_def)
  qed
qed

lemma nat_digits_decimal: "is_decimal (nat_digits n) n"
proof (induction n rule: nat_digits.induct)
  case (1 n)
  show ?case
  proof (cases "n < 10")
    case True
    then show ?thesis
      by (simp add: nat_digits.simps [of n] is_decimal_def decimal_value_def digit_char)
  next
    case False
    let ?p = "nat_digits (n div 10)"
    from False 1 have ih: "is_decimal ?p (n div 10)" by simp
    from False have pos: "0 < n div 10" by simp
    have m: "n mod 10 < 10" by simp
    have dig: "of_char (char_of (48 + n mod 10 :: nat)) = 48 + n mod 10"
      using m by (rule digit_char)
    have hdp: "hd ?p \<noteq> CHR ''0''" using ih pos by (rule is_decimal_positive)
    have ne: "?p \<noteq> []" using ih by (simp add: is_decimal_def)
    have eq: "nat_digits n = ?p @ [char_of (48 + n mod 10)]"
      using False by (simp add: nat_digits.simps [of n])
    have "decimal_value (?p @ [char_of (48 + n mod 10)]) = n"
      using ih dig by (simp add: decimal_value_snoc is_decimal_def)
    moreover have "list_all (\<lambda>c. 48 \<le> (of_char c :: nat) \<and> (of_char c :: nat) \<le> 57)
                     (?p @ [char_of (48 + n mod 10)])"
      using ih dig m by (simp add: is_decimal_def)
    moreover have "hd (?p @ [char_of (48 + n mod 10)]) \<noteq> CHR ''0''"
      using ne hdp by simp
    ultimately show ?thesis
      unfolding eq by (simp add: is_decimal_def)
  qed
qed

lemma nat_digits_nl: "nl \<notin> set (nat_digits n)"
proof
  assume "nl \<in> set (nat_digits n)"
  moreover have "list_all (\<lambda>c. 48 \<le> (of_char c :: nat) \<and> (of_char c :: nat) \<le> 57) (nat_digits n)"
    using nat_digits_decimal [of n] by (simp add: is_decimal_def)
  ultimately have "48 \<le> (of_char nl :: nat)" by (auto simp: list_all_iff)
  then show False by (simp add: nl_def)
qed

lemma memo_lines:
  assumes ne: "ledger \<noteq> []"
  shows "lines_of (synthesize_memo pr ledger) =
     [chart @ '' Business Intelligence Memo '' @ chart, [], ''Key Insights Discovered:'', []]
     @ concat (map (\<lambda>insight. lines_of (''- '' @ py_str pr insight)) ledger)
     @ (if 1 < length ledger
        then [''Summary:'', ''Analysis has revealed '' @ nat_digits (length ledger)
             @ '' key business insights that suggest opportunities for strategic optimization and growth.'']
        else [])"
proof -
  let ?bs = "map (\<lambda>insight. ''- '' @ py_str pr insight) ledger"
  have bne: "?bs \<noteq> []" using ne by simp
  have cc: "concat (map lines_of ?bs)
              = concat (map (\<lambda>insight. lines_of (''- '' @ py_str pr insight)) ledger)"
    by (simp add: comp_def)
  have h1: "lines_of (chart @ '' Business Intelligence Memo '' @ chart)
              = [chart @ '' Business Intelligence Memo '' @ chart]"
    using nl_chart by (intro lines_of_plain) (simp add: nl_def)
  have h3: "lines_of ''Key Insights Discovered:'' = [''Key Insights Discovered:'']"
    by (intro lines_of_plain) (simp add: nl_def)
  have hd: "\<And>r. lines_of (chart @ '' Business Intelligence Memo '' @ chart @ [nl, nl]
     @ ''Key Insights Discovered:'' @ [nl, nl] @ r) =
     [chart @ '' Business Intelligence Memo '' @ chart, [], ''Key Insights Discovered:'', []] @ lines_of r"
  proof -
    fix r
    have "lines_of ((chart @ '' Business Intelligence Memo '' @ chart) @ nl # (nl # ''Key Insights Discovered:'' @ [nl, nl] @ r))
       = lines_of (chart @ '' Business Intelligence Memo '' @ chart) @ lines_of (nl # ''Key Insights Discovered:'' @ [nl, nl] @ r)"
      by (rule lines_of_break)
    moreover have "lines_of (nl # ''Key Insights Discovered:'' @ [nl, nl] @ r) = [] # lines_of (''Key Insights Discovered:'' @ nl # (nl # r))"
      by simp
    moreover have "lines_of (''Key Insights Discovered:'' @ nl # (nl # r)) = lines_of ''Key Insights Discovered:'' @ lines_of (nl # r)"
      by (rule lines_of_break)
    ultimately show "lines_of (chart @ '' Business Intelligence Memo '' @ chart @ [nl, nl]
     @ ''Key Insights Discovered:'' @ [nl, nl] @ r) =
     [chart @ '' Business Intelligence Memo '' @ chart, [], ''Key Insights Discovered:'', []] @ lines_of r"
      using h1 h3 by simp
  qed
  show ?thesis
  proof (cases "1 < length ledger")
    case False
    then show ?thesis
      using hd [of "py_join [nl] ?bs"] lines_of_join [OF bne] cc
      by (simp add: memo_shape [OF ne])
  next
    case True
    let ?s = "''Analysis has revealed '' @ nat_digits (length ledger)
             @ '' key business insights that suggest opportunities for strategic optimization and growth.''"
    have s1: "lines_of ''Summary:'' = [''Summary:'']"
      by (intro lines_of_plain) (simp add: nl_def)
    have s2: "lines_of ?s = [?s]"
      using nat_digits_nl [of "length ledger"] by (intro lines_of_plain) (simp add: nl_def)
    have "lines_of (py_join [nl] ?bs @ nl # (''Summary:'' @ nl # ?s))
            = concat (map lines_of ?bs) @ lines_of (''Summary:'' @ nl # ?s)"
      using bne by (rule lines_of_join_tail)
    moreover have "lines_of (''Summary:'' @ nl # ?s) = lines_of ''Summary:'' @ lines_of ?s"
      by (rule lines_of_break)
    ultimately have "lines_of (py_join [nl] ?bs @ nl # (''Summary:'' @ nl # ?s))
            = concat (map (\<lambda>insight. lines_of (''- '' @ py_str pr insight)) ledger) @ [''Summary:'', ?s]"
      using s1 s2 cc by simp
    with True show ?thesis
      using hd [of "py_join [nl] ?bs @ nl # (''Summary:'' @ nl # ?s)"]
      by (simp add: memo_shape [OF ne])
  qed
qed

lemma bullet_lines_plain:
  "\<forall>v\<in>set ledger. nl \<notin> set (py_str pr v) \<Longrightarrow>
   concat (map (\<lambda>insight. lines_of (''- '' @ py_str pr insight)) ledger)
     = map (\<lambda>insight. ''- '' @ py_str pr insight) ledger"
proof (induction ledger)
  case Nil
  show ?case by simp
next
  case (Cons v ledger)
  have "nl \<notin> set (''- '' @ py_str pr v)" using Cons.prems by (simp add: nl_def)
  then have "lines_of (''- '' @ py_str pr v) = [''- '' @ py_str pr v]" by (rule lines_of_plain)
  with Cons show ?case by simp
qed

text \<open>
  Claim C1, amended. On the empty ledger the memo is exactly the fixed sentence. On any
  other ledger its lines are the four header lines, then, for each insight in ledger
  order, the lines of \<^verbatim>\<open>"- "\<close> followed by the insight's text, then, exactly when
  there is more than one insight, the line \<^verbatim>\<open>Summary:\<close> and the sentence with the
  count. An insight whose text holds no line break gives exactly one line, prefixed
  \<^verbatim>\<open>"- "\<close>; the count is written as its decimal numeral.
\<close>

theorem synthesize_memo_lines:
  "synthesize_memo pr [] = ''No business insights have been discovered yet.''
   \<and> (ledger \<noteq> [] \<longrightarrow>
        lines_of (synthesize_memo pr ledger) =
          [chart @ '' Business Intelligence Memo '' @ chart, [], ''Key Insights Discovered:'', []]
          @ concat (map (\<lambda>insight. lines_of (''- '' @ py_str pr insight)) ledger)
          @ (if 1 < length ledger
             then [''Summary:'',
                   ''Analysis has revealed '' @ nat_digits (length ledger)
                   @ '' key business insights that suggest opportunities for strategic optimization and growth.'']
             else []))
   \<and> (ledger \<noteq> [] \<and> (\<forall>v\<in>set ledger. nl \<notin> set (py_str pr v)) \<longrightarrow>
        lines_of (synthesize_memo pr ledger) =
          [chart @ '' Business Intelligence Memo '' @ chart, [], ''Key Insights Discovered:'', []]
          @ map (\<lambda>insight. ''- '' @ py_str pr insight) ledger
          @ (if 1 < length ledger
             then [''Summary:'',
                   ''Analysis has revealed '' @ nat_digits (length ledger)
                   @ '' key business insights that suggest opportunities for strategic optimization and growth.'']
             else []))
   \<and> is_decimal (nat_digits (length ledger)) (length ledger)"
proof (intro conjI impI)
  show "synthesize_memo pr [] = ''No business insights have been discovered yet.''"
    by (simp add: synthesize_memo_def)
next
  assume "ledger \<noteq> []"
  then show "lines_of (synthesize_memo pr ledger) =
          [chart @ '' Business Intelligence Memo '' @ chart, [], ''Key Insights Discovered:'', []]
          @ concat (map (\<lambda>insight. lines_of (''- '' @ py_str pr insight)) ledger)
          @ (if 1 < length ledger
             then [''Summary:'',
                   ''Analysis has revealed '' @ nat_digits (length ledger)
                   @ '' key business insights that suggest opportunities for strategic optimization and growth.'']
             else [])"
    by (rule memo_lines)
next
  assume h: "ledger \<noteq> [] \<and> (\<forall>v\<in>set ledger. nl \<notin> set (py_str pr v))"
  then have "concat (map (\<lambda>insight. lines_of (''- '' @ py_str pr insight)) ledger)
               = map (\<lambda>insight. ''- '' @ py_str pr insight) ledger"
    by (intro bullet_lines_plain) simp
  with h show "lines_of (synthesize_memo pr ledger) =
          [chart @ '' Business Intelligence Memo '' @ chart, [], ''Key Insights Discovered:'', []]
          @ map (\<lambda>insight. ''- '' @ py_str pr insight) ledger
          @ (if 1 < length ledger
             then [''Summary:'',
                   ''Analysis has revealed '' @ nat_digits (length ledger)
                   @ '' key business insights that suggest opportunities for strategic optimization and growth.'']
             else [])"
    using memo_lines [of ledger pr] by simp
next
  show "is_decimal (nat_digits (length ledger)) (length ledger)"
    by (rule nat_digits_decimal)
qed

lemma nat_digits_2: "nat_digits (Suc (Suc 0)) = ''2''"
  by code_simp

theorem synthesize_memo_lines_witness:
  "lines_of (synthesize_memo (isprintable mem_env) [PStr ''Sales spike in Q4'']) =
     [chart @ '' Business Intelligence Memo '' @ chart, [], ''Key Insights Discovered:'', [],
      ''- Sales spike in Q4'']
   \<and> lines_of (synthesize_memo (isprintable mem_env) [PStr ''Sales spike in Q4'', PStr ''Returns fell'']) =
     [chart @ '' Business Intelligence Memo '' @ chart, [], ''Key Insights Discovered:'', [],
      ''- Sales spike in Q4'', ''- Returns fell'', ''Summary:'',
      ''Analysis has revealed 2 key business insights that suggest opportunities for strategic optimization and growth.'']"
  using synthesize_memo_lines [of "isprintable mem_env" "[PStr ''Sales spike in Q4'']",
          THEN conjunct2, THEN conjunct2, THEN conjunct1]
        synthesize_memo_lines [of "isprintable mem_env" "[PStr ''Sales spike in Q4'', PStr ''Returns fell'']",
          THEN conjunct2, THEN conjunct2, THEN conjunct1]
  by (simp add: nl_def nat_digits_2)

text \<open>
  Claim C1 as the specification words it (for every ledger, one line prefixed
  \<^verbatim>\<open>"- "\<close> per insight, and no summary line for a single insight) fails where an
  insight holds a line break:
  the text is copied as it is. One insight \<^verbatim>\<open>"a\nb"\<close> gives the lines \<^verbatim>\<open>- a\<close> and
  \<^verbatim>\<open>b\<close>, and one insight can carry a summary line of its own.
\<close>

theorem one_line_per_insight_counterexample:
  "lines_of (synthesize_memo (isprintable mem_env) [PStr [CHR ''a'', nl, CHR ''b'']]) \<noteq>
     [chart @ '' Business Intelligence Memo '' @ chart, [], ''Key Insights Discovered:'', [],
      ''- '' @ [CHR ''a'', nl, CHR ''b'']]
   \<and> lines_of (synthesize_memo (isprintable mem_env) [PStr [CHR ''a'', nl, CHR ''b'']]) =
     [chart @ '' Business Intelligence Memo '' @ chart, [], ''Key Insights Discovered:'', [],
      ''- a'', ''b'']
   \<and> lines_of (synthesize_memo (isprintable mem_env)
        [PStr (''a'' @ [nl] @ ''- b'' @ [nl] @ ''Summary:'' @ [nl]
               @ ''Analysis has revealed 2 key business insights that suggest opportunities for strategic optimization and growth.'')]) =
     [chart @ '' Business Intelligence Memo '' @ chart, [], ''Key Insights Discovered:'', [],
      ''- a'', ''- b'', ''Summary:'',
      ''Analysis has revealed 2 key business insights that suggest opportunities for strategic optimization and growth.'']"
  by (simp add: memo_lines nl_def)

section \<open>The tool handler never raises\<close>

lemma run_query_text:
  "run_query env st q opn c = (Inr r, st') \<Longrightarrow> \<exists>t. r = [TextContent t]"
  by (auto simp: run_query_def split: prod.splits sum.splits)

lemma call_tool_try_text:
  "call_tool_try env st name arguments = (Inr r, st') \<Longrightarrow> \<exists>t. r = [TextContent t]"
  unfolding call_tool_try_def
  by (auto simp: Let_def split: if_splits prod.splits sum.splits option.splits
           dest: run_query_text)

text \<open>
  Claim C2. Whatever the name and the arguments, the tool handler returns exactly one
  text content item; and whenever the body of its \<^verbatim>\<open>try\<close> raises an exception \<open>e\<close>, that
  item is \<^verbatim>\<open>"Error: "\<close> followed by \<^verbatim>\<open>str(e)\<close>. The handler's result has no exception
  in it: nothing leaves it but content.
\<close>

theorem call_tool_never_raises:
  "\<exists>t. fst (handle_call_tool env st name arguments) = [TextContent t]
       \<and> (\<forall>e. fst (call_tool_try env st name arguments) = Inl e
             \<longrightarrow> t = ''Error: '' @ exn_str (isprintable env) e)"
proof (cases "call_tool_try env st name arguments")
  case (Pair res st')
  show ?thesis
  proof (cases res)
    case (Inl e)
    with Pair show ?thesis by (simp add: handle_call_tool_def)
  next
    case (Inr r)
    with Pair obtain t where "r = [TextContent t]"
      using call_tool_try_text by blast
    with Pair Inr show ?thesis by (simp add: handle_call_tool_def)
  qed
qed

section \<open>Appending an insight\<close>

lemma append_insight_missing:
  "arguments = None \<or> (\<exists>a. arguments = Some a \<and> map_of a ''insight'' = None) \<Longrightarrow>
   call_tool_try env st ''append-insight'' arguments =
     (Inl (ValueError ''Missing insight argument''), st)"
  by (auto simp: call_tool_try_def)

lemma append_insight_present:
  assumes "map_of a ''insight'' = Some v"
  shows "call_tool_try env st ''append-insight'' (Some a) =
     (case send_resource_updated env (session st) ''memo://insights'' of
        (Some e, s) \<Rightarrow>
          (Inl e, st\<lparr>insights := insights st @ [v], session := s,
                     effects := effects st @ [LedgerAppend v,
                       MemoSynthesized (synthesize_memo (isprintable env) (insights st @ [v]))]\<rparr>)
      | (None, s) \<Rightarrow>
          (Inr [TextContent ''Insight added to memo''],
           st\<lparr>insights := insights st @ [v], session := s,
              effects := effects st @ [LedgerAppend v,
                MemoSynthesized (synthesize_memo (isprintable env) (insights st @ [v])),
                ResourceUpdated ''memo://insights'']\<rparr>))"
proof -
  from assms have ne: "a \<noteq> []" by auto
  with assms show ?thesis
    by (simp add: call_tool_try_def getitem_def Let_def split: prod.splits option.splits)
qed

text \<open>
  Claim C3. An \<^verbatim>\<open>append-insight\<close> call without arguments, or whose arguments lack the key
  \<^verbatim>\<open>insight\<close>, returns the error text \<^verbatim>\<open>Missing insight argument\<close> and changes nothing.
  Otherwise the insight is appended to the ledger, the memo of the new ledger is
  synthesized and dropped, the session is sent a resource-updated notification for
  \<^verbatim>\<open>memo://insights\<close>, and, the send having returned, the call returns
  \<^verbatim>\<open>Insight added to memo\<close>: the effects are these three, in this order.
\<close>

theorem append_insight_steps:
  "(arguments = None \<or> (\<exists>a. arguments = Some a \<and> map_of a ''insight'' = None) \<longrightarrow>
      handle_call_tool env st ''append-insight'' arguments =
        ([TextContent ''Error: Missing insight argument''], st))
   \<and> (\<forall>a v s. arguments = Some a \<and> map_of a ''insight'' = Some v
        \<and> send_resource_updated env (session st) ''memo://insights'' = (None, s) \<longrightarrow>
      handle_call_tool env st ''append-insight'' arguments =
        ([TextContent ''Insight added to memo''],
         st\<lparr>insights := insights st @ [v], session := s,
            effects := effects st @ [LedgerAppend v,
              MemoSynthesized (synthesize_memo (isprintable env) (insights st @ [v])),
              ResourceUpdated ''memo://insights'']\<rparr>))"
proof (intro conjI impI allI)
  assume "arguments = None \<or> (\<exists>a. arguments = Some a \<and> map_of a ''insight'' = None)"
  then show "handle_call_tool env st ''append-insight'' arguments =
        ([TextContent ''Error: Missing insight argument''], st)"
    by (simp add: handle_call_tool_def append_insight_missing)
next
  fix a v s
  assume h: "arguments = Some a \<and> map_of a ''insight'' = Some v
        \<and> send_resource_updated env (session st) ''memo://insights'' = (None, s)"
  then show "handle_call_tool env st ''append-insight'' arguments =
        ([TextContent ''Insight added to memo''],
         st\<lparr>insights := insights st @ [v], session := s,
            effects := effects st @ [LedgerAppend v,
              MemoSynthesized (synthesize_memo (isprintable env) (insights st @ [v])),
              ResourceUpdated ''memo://insights'']\<rparr>)"
    by (simp add: handle_call_tool_def append_insight_present)
qed

lemma append_insight_ledger:
  fixes a :: "(string \<times> pyval) list"
  assumes "map_of a ''insight'' = Some v"
  shows "insights (snd (handle_call_tool env st ''append-insight'' (Some a))) = insights st @ [v]"
  using assms
  by (simp add: handle_call_tool_def append_insight_present split: prod.splits option.splits)

text \<open>
  Claim C10. When the notification raises, \<^verbatim>\<open>append-insight\<close> returns the error text
  of that exception and the ledger keeps the insight appended. The ledger after an
  \<^verbatim>\<open>append-insight\<close> call equals the ledger before it exactly when the call had no
  arguments or lacked the key \<^verbatim>\<open>insight\<close>.
\<close>

theorem append_insight_not_rolled_back:
  "(\<forall>a v e s. arguments = Some a \<and> map_of a ''insight'' = Some v
        \<and> send_resource_updated env (session st) ''memo://insights'' = (Some e, s) \<longrightarrow>
      fst (handle_call_tool env st ''append-insight'' arguments)
        = [TextContent (''Error: '' @ exn_str (isprintable env) e)]
      \<and> insights (snd (handle_call_tool env st ''append-insight'' arguments))
        = insights st @ [v])
   \<and> (insights (snd (handle_call_tool env st ''append-insight'' arguments)) = insights st
        \<longleftrightarrow> (arguments = None \<or> (\<exists>a. arguments = Some a \<and> map_of a ''insight'' = None)))"
proof (intro conjI impI allI)
  fix a v e s
  assume h: "arguments = Some a \<and> map_of a ''insight'' = Some v
        \<and> send_resource_updated env (session st) ''memo://insights'' = (Some e, s)"
  then show "fst (handle_call_tool env st ''append-insight'' arguments)
        = [TextContent (''Error: '' @ exn_str (isprintable env) e)]"
    by (simp add: handle_call_tool_def append_insight_present)
  from h show "insights (snd (handle_call_tool env st ''append-insight'' arguments))
        = insights st @ [v]"
    by (simp add: handle_call_tool_def append_insight_present)
next
  show "insights (snd (handle_call_tool env st ''append-insight'' arguments)) = insights st
        \<longleftrightarrow> (arguments = None \<or> (\<exists>a. arguments = Some a \<and> map_of a ''insight'' = None))"
  proof (cases "arguments = None \<or> (\<exists>a. arguments = Some a \<and> map_of a ''insight'' = None)")
    case True
    then show ?thesis
      by (simp add: handle_call_tool_def append_insight_missing)
  next
    case False
    then obtain a v where a: "arguments = Some a" "map_of a ''insight'' = Some v"
      by auto
    have "insights (snd (handle_call_tool env st ''append-insight'' (Some a)))
            = insights st @ [v]"
      using a(2)
      by (simp add: handle_call_tool_def append_insight_present split: prod.splits option.splits)
    with a False show ?thesis by simp
  qed
qed

section \<open>Reading the memo resource\<close>

lemma read_memo:
  "scheme uri = ''memo'' \<Longrightarrow> url_str uri = ''memo://insights'' \<Longrightarrow>
   handle_read_resource env st uri =
     (Inr (synthesize_memo (isprintable env) (insights st)),
      st\<lparr>effects := effects st
             @ [MemoSynthesized (synthesize_memo (isprintable env) (insights st))]\<rparr>)"
  by (simp add: handle_read_resource_def Let_def)

text \<open>
  Claim C4. Reading \<^verbatim>\<open>memo://insights\<close> returns the memo synthesized from the ledger as
  it is at the call: the fixed sentence on the empty ledger, and, after an
  \<^verbatim>\<open>append-insight\<close> carrying an insight, a text whose lines are the header, the
  bullets of the earlier insights, then the bullet of the new insight, then the
  summary when there was an insight before. A read whose scheme is not \<^verbatim>\<open>memo\<close>, or
  whose path (the address with \<^verbatim>\<open>memo://\<close> removed) is not \<^verbatim>\<open>insights\<close>, raises a
  \<^verbatim>\<open>ValueError\<close> that leaves the handler, and leaves the server as it was.
\<close>

theorem read_resource_fresh_or_fault:
  "(scheme uri = ''memo'' \<and> url_str uri = ''memo://insights'' \<longrightarrow>
      fst (handle_read_resource env st uri)
        = Inr (synthesize_memo (isprintable env) (insights st))
      \<and> (insights st = [] \<longrightarrow>
           fst (handle_read_resource env st uri)
             = Inr ''No business insights have been discovered yet.'')
      \<and> (\<forall>a v. map_of a ''insight'' = Some v \<longrightarrow>
           (\<exists>memo.
              fst (handle_read_resource env
                     (snd (handle_call_tool env st ''append-insight'' (Some a))) uri)
                = Inr memo
              \<and> lines_of memo =
                  [chart @ '' Business Intelligence Memo '' @ chart, [],
                   ''Key Insights Discovered:'', []]
                  @ concat (map (\<lambda>insight. lines_of (''- '' @ py_str (isprintable env) insight))
                              (insights st))
                  @ lines_of (''- '' @ py_str (isprintable env) v)
                  @ (if insights st \<noteq> []
                     then [''Summary:'',
                           ''Analysis has revealed '' @ nat_digits (Suc (length (insights st)))
                           @ '' key business insights that suggest opportunities for strategic optimization and growth.'']
                     else []))))
   \<and> (scheme uri \<noteq> ''memo'' \<longrightarrow>
        handle_read_resource env st uri
          = (Inl (ValueError (''Unsupported URI scheme: '' @ scheme uri)), st))
   \<and> (scheme uri = ''memo'' \<and> py_replace (url_str uri) ''memo://'' [] \<noteq> ''insights'' \<longrightarrow>
        handle_read_resource env st uri
          = (Inl (ValueError (''Unknown resource path: ''
                               @ py_replace (url_str uri) ''memo://'' [])), st))"
proof (intro conjI impI allI)
  assume h: "scheme uri = ''memo'' \<and> url_str uri = ''memo://insights''"
  then show "fst (handle_read_resource env st uri)
        = Inr (synthesize_memo (isprintable env) (insights st))"
    by (simp add: read_memo)
  {
    assume "insights st = []"
    with h show "fst (handle_read_resource env st uri)
             = Inr ''No business insights have been discovered yet.''"
      by (simp add: read_memo synthesize_memo_def)
  }
  fix a :: "(string \<times> pyval) list" and v
  assume v: "map_of a ''insight'' = Some v"
  let ?st' = "snd (handle_call_tool env st ''append-insight'' (Some a))"
  let ?memo = "synthesize_memo (isprintable env) (insights st @ [v])"
  have led: "insights ?st' = insights st @ [v]"
    using v by (rule append_insight_ledger)
  with h have r: "fst (handle_read_resource env ?st' uri) = Inr ?memo"
    by (simp add: read_memo)
  have "lines_of ?memo =
          [chart @ '' Business Intelligence Memo '' @ chart, [], ''Key Insights Discovered:'', []]
          @ concat (map (\<lambda>insight. lines_of (''- '' @ py_str (isprintable env) insight))
                      (insights st))
          @ lines_of (''- '' @ py_str (isprintable env) v)
          @ (if insights st \<noteq> []
             then [''Summary:'',
                   ''Analysis has revealed '' @ nat_digits (Suc (length (insights st)))
                   @ '' key business insights that suggest opportunities for strategic optimization and growth.'']
             else [])"
    using memo_lines [of "insights st @ [v]" "isprintable env"] by simp
  with r show "\<exists>memo.
              fst (handle_read_resource env ?st' uri) = Inr memo
              \<and> lines_of memo =
                  [chart @ '' Business Intelligence Memo '' @ chart, [],
                   ''Key Insights Discovered:'', []]
                  @ concat (map (\<lambda>insight. lines_of (''- '' @ py_str (isprintable env) insight))
                              (insights st))
                  @ lines_of (''- '' @ py_str (isprintable env) v)
                  @ (if insights st \<noteq> []
                     then [''Summary:'',
                           ''Analysis has revealed '' @ nat_digits (Suc (length (insights st)))
                           @ '' key business insights that suggest opportunities for strategic optimization and growth.'']
                     else [])"
    by blast
next
  assume "scheme uri \<noteq> ''memo''"
  then show "handle_read_resource env st uri
          = (Inl (ValueError (''Unsupported URI scheme: '' @ scheme uri)), st)"
    by (simp add: handle_read_resource_def)
next
  assume "scheme uri = ''memo'' \<and> py_replace (url_str uri) ''memo://'' [] \<noteq> ''insights''"
  then show "handle_read_resource env st uri
          = (Inl (ValueError (''Unknown resource path: ''
                               @ py_replace (url_str uri) ''memo://'' [])), st)"
    by (simp add: handle_read_resource_def Let_def)
qed


section \<open>Argument checks of the tool handler\<close>

text \<open>
  Claim C5. A call whose name is none of the tools listed, with arguments that are not
  empty, returns the text \<^verbatim>\<open>Error: Unknown tool: \<close> followed by the name, and changes
  nothing.
\<close>

theorem unknown_tool_error:
  "name \<notin> set (map tool_name handle_list_tools) \<and> arguments = Some a \<and> a \<noteq> [] \<longrightarrow>
   handle_call_tool env st name arguments
     = ([TextContent (''Error: '' @ ''Unknown tool: '' @ name)], st)"
  by (simp add: handle_list_tools_def handle_call_tool_def call_tool_try_def)

lemma list_collections_any_args:
  "call_tool_try env st ''list-collections'' arguments =
     (case db_list_collection_names env (db st) of
        (Inl e, w) \<Rightarrow> (Inl e, st\<lparr>db := w\<rparr>)
      | (Inr collections, w) \<Rightarrow>
          (Inr [TextContent (py_str (isprintable env) (PList (map PStr collections)))],
           st\<lparr>db := w\<rparr>))"
  by (simp add: call_tool_try_def)

text \<open>
  Claim C6. A call of any tool but \<^verbatim>\<open>append-insight\<close> and \<^verbatim>\<open>list-collections\<close> without
  arguments, or with empty ones, returns \<^verbatim>\<open>Error: Missing arguments\<close>.
  \<^verbatim>\<open>list-collections\<close> without arguments does what it does with any arguments, and
  returns the names the store lists; \<^verbatim>\<open>append-insight\<close> without arguments returns its
  own \<^verbatim>\<open>Error: Missing insight argument\<close>.
\<close>

theorem missing_arguments_error:
  "(name \<noteq> ''append-insight'' \<and> name \<noteq> ''list-collections''
      \<and> (arguments = None \<or> arguments = Some []) \<longrightarrow>
      handle_call_tool env st name arguments = ([TextContent ''Error: Missing arguments''], st))
   \<and> (\<forall>names w. db_list_collection_names env (db st) = (Inr names, w) \<longrightarrow>
        handle_call_tool env st ''list-collections'' None
          = ([TextContent (py_str (isprintable env) (PList (map PStr names)))],
             st\<lparr>db := w\<rparr>))
   \<and> handle_call_tool env st ''list-collections'' None
        = handle_call_tool env st ''list-collections'' arguments
   \<and> handle_call_tool env st ''append-insight'' None
        = ([TextContent ''Error: Missing insight argument''], st)"
proof (intro conjI impI allI)
  assume "name \<noteq> ''append-insight'' \<and> name \<noteq> ''list-collections''
      \<and> (arguments = None \<or> arguments = Some [])"
  then show "handle_call_tool env st name arguments
      = ([TextContent ''Error: Missing arguments''], st)"
    by (auto simp: handle_call_tool_def call_tool_try_def)
next
  fix names w
  assume "db_list_collection_names env (db st) = (Inr names, w)"
  then show "handle_call_tool env st ''list-collections'' None
          = ([TextContent (py_str (isprintable env) (PList (map PStr names)))],
             st\<lparr>db := w\<rparr>)"
    by (simp add: handle_call_tool_def list_collections_any_args)
next
  show "handle_call_tool env st ''list-collections'' None
        = handle_call_tool env st ''list-collections'' arguments"
    by (simp add: handle_call_tool_def list_collections_any_args)
next
  show "handle_call_tool env st ''append-insight'' None
        = ([TextContent ''Error: Missing insight argument''], st)"
    by (simp add: handle_call_tool_def append_insight_missing)
qed

lemma repr_key:
  "k \<in> {''query'', ''collection'', ''pipeline'', ''documents'', ''filter'', ''update'', ''name''}
   \<Longrightarrow> repr_str pr k = [CHR 0x27] @ k @ [CHR 0x27]"
  by (auto simp: repr_str_def repr_char_def Let_def)

lemma find_missing:
  assumes "a \<noteq> []"
  shows "map_of a ''query'' = None \<Longrightarrow>
           call_tool_try env st ''find'' (Some a) = (Inl (KeyError ''query''), st)"
    and "map_of a ''query'' \<noteq> None \<Longrightarrow> map_of a ''collection'' = None \<Longrightarrow>
           call_tool_try env st ''find'' (Some a) = (Inl (KeyError ''collection''), st)"
  using assms by (auto simp: call_tool_try_def getitem_def)

lemma aggregate_missing:
  assumes "a \<noteq> []"
  shows "map_of a ''pipeline'' = None \<Longrightarrow>
           call_tool_try env st ''aggregate'' (Some a) = (Inl (KeyError ''pipeline''), st)"
    and "map_of a ''pipeline'' \<noteq> None \<Longrightarrow> map_of a ''collection'' = None \<Longrightarrow>
           call_tool_try env st ''aggregate'' (Some a) = (Inl (KeyError ''collection''), st)"
  using assms by (auto simp: call_tool_try_def getitem_def)

lemma insert_missing:
  assumes "a \<noteq> []"
  shows "map_of a ''documents'' = None \<Longrightarrow>
           call_tool_try env st ''insert'' (Some a) = (Inl (KeyError ''documents''), st)"
    and "map_of a ''documents'' \<noteq> None \<Longrightarrow> map_of a ''collection'' = None \<Longrightarrow>
           call_tool_try env st ''insert'' (Some a) = (Inl (KeyError ''collection''), st)"
  using assms by (auto simp: call_tool_try_def getitem_def)

lemma update_missing:
  assumes "a \<noteq> []"
  shows "map_of a ''filter'' = None \<Longrightarrow>
           call_tool_try env st ''update'' (Some a) = (Inl (KeyError ''filter''), st)"
    and "map_of a ''filter'' \<noteq> None \<Longrightarrow> map_of a ''update'' = None \<Longrightarrow>
           call_tool_try env st ''update'' (Some a) = (Inl (KeyError ''update''), st)"
    and "map_of a ''filter'' \<noteq> None \<Longrightarrow> map_of a ''update'' \<noteq> None \<Longrightarrow>
         map_of a ''collection'' = None \<Longrightarrow>
           call_tool_try env st ''update'' (Some a) = (Inl (KeyError ''collection''), st)"
  using assms by (auto simp: call_tool_try_def getitem_def)

lemma delete_missing:
  assumes "a \<noteq> []"
  shows "map_of a ''filter'' = None \<Longrightarrow>
           call_tool_try env st ''delete'' (Some a) = (Inl (KeyError ''filter''), st)"
    and "map_of a ''filter'' \<noteq> None \<Longrightarrow> map_of a ''collection'' = None \<Longrightarrow>
           call_tool_try env st ''delete'' (Some a) = (Inl (KeyError ''collection''), st)"
  using assms by (auto simp: call_tool_try_def getitem_def)

lemma create_collection_missing:
  assumes "a \<noteq> []"
  shows "map_of a ''name'' = None \<Longrightarrow>
           call_tool_try env st ''create-collection'' (Some a) = (Inl (KeyError ''name''), st)"
  using assms by (auto simp: call_tool_try_def getitem_def)

text \<open>
  Claim C9. For each of \<^verbatim>\<open>find\<close>, \<^verbatim>\<open>aggregate\<close>, \<^verbatim>\<open>insert\<close>, \<^verbatim>\<open>update\<close>,
  \<^verbatim>\<open>delete\<close> and \<^verbatim>\<open>create-collection\<close>, a call with arguments that are not empty and
  lack a key the tool requires returns \<^verbatim>\<open>Error: \<close> followed by the \<^verbatim>\<open>repr\<close> of a
  missing required key, which is the key between single quotes; nothing else is in
  the text, and nothing has changed.
\<close>

theorem missing_field_key_error:
  "t \<in> set handle_list_tools \<and> tool_name t \<noteq> ''list-collections''
     \<and> tool_name t \<noteq> ''append-insight'' \<and> a \<noteq> []
     \<and> (\<exists>k\<in>set (required t). map_of a k = None) \<longrightarrow>
   (\<exists>k\<in>set (required t). map_of a k = None
      \<and> repr_str (isprintable env) k = [CHR 0x27] @ k @ [CHR 0x27]
      \<and> handle_call_tool env st (tool_name t) (Some a)
          = ([TextContent (''Error: '' @ repr_str (isprintable env) k)], st))"
proof
  assume h: "t \<in> set handle_list_tools \<and> tool_name t \<noteq> ''list-collections''
     \<and> tool_name t \<noteq> ''append-insight'' \<and> a \<noteq> []
     \<and> (\<exists>k\<in>set (required t). map_of a k = None)"
  then have ne: "a \<noteq> []" and miss: "\<exists>k\<in>set (required t). map_of a k = None"
    by simp_all
  let ?P = "\<lambda>k. map_of a k = None
      \<and> repr_str (isprintable env) k = [CHR 0x27] @ k @ [CHR 0x27]
      \<and> handle_call_tool env st (tool_name t) (Some a)
          = ([TextContent (''Error: '' @ repr_str (isprintable env) k)], st)"
  from h consider
      (find) "tool_name t = ''find''" "set (required t) = {''collection'', ''query''}"
    | (aggregate) "tool_name t = ''aggregate''" "set (required t) = {''collection'', ''pipeline''}"
    | (insert) "tool_name t = ''insert''" "set (required t) = {''collection'', ''documents''}"
    | (update) "tool_name t = ''update''"
        "set (required t) = {''collection'', ''filter'', ''update''}"
    | (delete) "tool_name t = ''delete''" "set (required t) = {''collection'', ''filter''}"
    | (create) "tool_name t = ''create-collection''" "set (required t) = {''name''}"
    by (auto simp: handle_list_tools_def)
  then show "\<exists>k\<in>set (required t). ?P k"
  proof cases
    case find
    show ?thesis
    proof (cases "map_of a ''query''")
      case None
      then have "?P ''query''"
        using find(1) by (simp add: handle_call_tool_def repr_key find_missing [OF ne])
      with find(2) show ?thesis by blast
    next
      case (Some v)
      with miss find(2) have c: "map_of a ''collection'' = None" by auto
      with Some have "?P ''collection''"
        using find(1) by (simp add: handle_call_tool_def repr_key find_missing [OF ne])
      with find(2) show ?thesis by blast
    qed
  next
    case aggregate
    show ?thesis
    proof (cases "map_of a ''pipeline''")
      case None
      then have "?P ''pipeline''"
        using aggregate(1) by (simp add: handle_call_tool_def repr_key aggregate_missing [OF ne])
      with aggregate(2) show ?thesis by blast
    next
      case (Some v)
      with miss aggregate(2) have c: "map_of a ''collection'' = None" by auto
      with Some have "?P ''collection''"
        using aggregate(1) by (simp add: handle_call_tool_def repr_key aggregate_missing [OF ne])
      with aggregate(2) show ?thesis by blast
    qed
  next
    case insert
    show ?thesis
    proof (cases "map_of a ''documents''")
      case None
      then have "?P ''documents''"
        using insert(1) by (simp add: handle_call_tool_def repr_key insert_missing [OF ne])
      with insert(2) show ?thesis by blast
    next
      case (Some v)
      with miss insert(2) have c: "map_of a ''collection'' = None" by auto
      with Some have "?P ''collection''"
        using insert(1) by (simp add: handle_call_tool_def repr_key insert_missing [OF ne])
      with insert(2) show ?thesis by blast
    qed
  next
    case update
    show ?thesis
    proof (cases "map_of a ''filter''")
      case None
      then have "?P ''filter''"
        using update(1) by (simp add: handle_call_tool_def repr_key update_missing [OF ne])
      with update(2) show ?thesis by blast
    next
      case f: (Some v)
      show ?thesis
      proof (cases "map_of a ''update''")
        case None
        with f have "?P ''update''"
          using update(1) by (simp add: handle_call_tool_def repr_key update_missing [OF ne])
        with update(2) show ?thesis by blast
      next
        case (Some u)
        with f miss update(2) have c: "map_of a ''collection'' = None" by auto
        with f Some have "?P ''collection''"
          using update(1) by (simp add: handle_call_tool_def repr_key update_missing [OF ne])
        with update(2) show ?thesis by blast
      qed
    qed
  next
    case delete
    show ?thesis
    proof (cases "map_of a ''filter''")
      case None
      then have "?P ''filter''"
        using delete(1) by (simp add: handle_call_tool_def repr_key delete_missing [OF ne])
      with delete(2) show ?thesis by blast
    next
      case (Some v)
      with miss delete(2) have c: "map_of a ''collection'' = None" by auto
      with Some have "?P ''collection''"
        using delete(1) by (simp add: handle_call_tool_def repr_key delete_missing [OF ne])
      with delete(2) show ?thesis by blast
    qed
  next
    case create
    with miss have "map_of a ''name'' = None" by simp
    then have "?P ''name''"
      using create(1) by (simp add: handle_call_tool_def repr_key create_collection_missing [OF ne])
    with create(2) show ?thesis by blast
  qed
qed

section \<open>The gateway's insert, update and delete\<close>

text \<open>
  Claim C7. On a collection the store hands out, the gateway's insert takes a list of
  documents to the store's \<^verbatim>\<open>insert_many\<close> and returns one document whose
  \<^verbatim>\<open>inserted_ids\<close> are the \<^verbatim>\<open>str\<close> of every identifier the store generated, in order;
  anything else goes to \<^verbatim>\<open>insert_one\<close> and returns one document whose
  \<^verbatim>\<open>inserted_id\<close> is the \<^verbatim>\<open>str\<close> of the identifier. Whatever an insert returns is of
  one of these two shapes, with strings for identifiers.
\<close>

theorem insert_ids_as_strings:
  "db_getitem env w c = None \<longrightarrow>
     (\<forall>docs ids w'. coll_insert_many env w c docs = (Inr ids, w') \<longrightarrow>
        execute_query env w (PList docs) ''insert'' c
          = (Inr [PDict [(''inserted_ids'', PList (map (\<lambda>i. PStr (id_str env i)) ids))]], w'))
     \<and> (\<forall>doc i w'. (\<forall>docs. doc \<noteq> PList docs) \<and> coll_insert_one env w c doc = (Inr i, w') \<longrightarrow>
        execute_query env w doc ''insert'' c
          = (Inr [PDict [(''inserted_id'', PStr (id_str env i))]], w'))
     \<and> (\<forall>q r w'. execute_query env w q ''insert'' c = (Inr r, w') \<longrightarrow>
        (\<exists>ss. r = [PDict [(''inserted_ids'', PList (map PStr ss))]])
        \<or> (\<exists>s. r = [PDict [(''inserted_id'', PStr s)]]))"
proof (intro conjI impI allI)
  fix docs ids w'
  assume "db_getitem env w c = None" "coll_insert_many env w c docs = (Inr ids, w')"
  then show "execute_query env w (PList docs) ''insert'' c
          = (Inr [PDict [(''inserted_ids'', PList (map (\<lambda>i. PStr (id_str env i)) ids))]], w')"
    by (simp add: execute_query_def)
next
  fix doc i w'
  assume "db_getitem env w c = None"
    "(\<forall>docs. doc \<noteq> PList docs) \<and> coll_insert_one env w c doc = (Inr i, w')"
  then show "execute_query env w doc ''insert'' c
          = (Inr [PDict [(''inserted_id'', PStr (id_str env i))]], w')"
    by (cases doc) (simp_all add: execute_query_def)
next
  fix q r w'
  assume g: "db_getitem env w c = None" and e: "execute_query env w q ''insert'' c = (Inr r, w')"
  show "(\<exists>ss. r = [PDict [(''inserted_ids'', PList (map PStr ss))]])
        \<or> (\<exists>s. r = [PDict [(''inserted_id'', PStr s)]])"
  proof (cases "\<exists>docs. q = PList docs")
    case True
    then obtain docs where q: "q = PList docs" by blast
    from e g q obtain ids where "r = [PDict [(''inserted_ids'', PList (map (\<lambda>i. PStr (id_str env i)) ids))]]"
      by (auto simp: execute_query_def split: prod.splits sum.splits)
    then have "r = [PDict [(''inserted_ids'', PList (map PStr (map (id_str env) ids)))]]"
      by (simp add: comp_def)
    then show ?thesis by blast
  next
    case False
    with e g obtain i where "r = [PDict [(''inserted_id'', PStr (id_str env i))]]"
      by (cases q) (auto simp: execute_query_def split: prod.splits sum.splits)
    then show ?thesis by blast
  qed
qed

text \<open>
  Claim C8. On a multi-document store and a collection it hands out: when the store's
  \<^verbatim>\<open>update_many\<close> returns, the gateway's update has applied the update operations of
  the query to every document its filter selects, left the others as they were, and
  returns the number of documents changed as \<^verbatim>\<open>modified_count\<close>; when the store's
  \<^verbatim>\<open>delete_many\<close> returns, the gateway's delete has removed every document the
  filter selects and returns their number as \<^verbatim>\<open>deleted_count\<close>.
\<close>

theorem update_delete_many:
  "multi_document_store env docs matches apply \<and> db_getitem env w c = None \<longrightarrow>
     (\<forall>f u n w'. py_get query ''filter'' (PDict []) = Inr f
          \<and> py_get query ''update'' (PDict []) = Inr u
          \<and> coll_update_many env w c f u = (Inr n, w') \<longrightarrow>
        execute_query env w query ''update'' c
          = (Inr [PDict [(''modified_count'',
                    PInt (int (length (filter (\<lambda>d. matches f d \<and> apply u d \<noteq> d) (docs w c)))))]],
             w')
        \<and> docs w' c = map (\<lambda>d. if matches f d then apply u d else d) (docs w c))
     \<and> (\<forall>n w'. coll_delete_many env w c query = (Inr n, w') \<longrightarrow>
        execute_query env w query ''delete'' c
          = (Inr [PDict [(''deleted_count'',
                    PInt (int (length (filter (matches query) (docs w c)))))]], w')
        \<and> docs w' c = filter (\<lambda>d. \<not> matches query d) (docs w c))"
proof (intro impI conjI allI)
  fix f u n w'
  assume s: "multi_document_store env docs matches apply \<and> db_getitem env w c = None"
    and h: "py_get query ''filter'' (PDict []) = Inr f
          \<and> py_get query ''update'' (PDict []) = Inr u
          \<and> coll_update_many env w c f u = (Inr n, w')"
  from s h have eff:
    "docs w' c = map (\<lambda>d. if matches f d then apply u d else d) (docs w c)"
    and cnt: "n = int (length (filter (\<lambda>d. matches f d \<and> apply u d \<noteq> d) (docs w c)))"
    unfolding multi_document_store_def by blast+
  from s h have "execute_query env w query ''update'' c
                   = (Inr [PDict [(''modified_count'', PInt n)]], w')"
    by (simp add: execute_query_def)
  with cnt show "execute_query env w query ''update'' c
          = (Inr [PDict [(''modified_count'',
                    PInt (int (length (filter (\<lambda>d. matches f d \<and> apply u d \<noteq> d) (docs w c)))))]],
             w')"
    by simp
  from eff show "docs w' c = map (\<lambda>d. if matches f d then apply u d else d) (docs w c)" .
next
  fix n w'
  assume s: "multi_document_store env docs matches apply \<and> db_getitem env w c = None"
    and h: "coll_delete_many env w c query = (Inr n, w')"
  from s h have eff: "docs w' c = filter (\<lambda>d. \<not> matches query d) (docs w c)"
    and cnt: "n = int (length (filter (matches query) (docs w c)))"
    unfolding multi_document_store_def by blast+
  from s h have "execute_query env w query ''delete'' c
                   = (Inr [PDict [(''deleted_count'', PInt n)]], w')"
    by (simp add: execute_query_def)
  with cnt show "execute_query env w query ''delete'' c
          = (Inr [PDict [(''deleted_count'',
                    PInt (int (length (filter (matches query) (docs w c)))))]], w')"
    by simp
  from eff show "docs w' c = filter (\<lambda>d. \<not> matches query d) (docs w c)" .
qed


section \<open>The server run on the in-memory store\<close>

lemma int_str_small: "int_str 0 = ''0''" "int_str 1 = ''1''" "int_str 2 = ''2''"
  by code_simp+

theorem call_tool_never_raises_witness:
  "fst (handle_call_tool mem_env (mem_server demo_db []) ''create-collection''
          (Some [(''name'', PStr ''inventory'')]))
     = [TextContent ''Error: collection inventory already exists'']"
proof -
  have raised:
    "fst (call_tool_try mem_env (mem_server demo_db []) ''create-collection''
            (Some [(''name'', PStr ''inventory'')]))
       = Inl (Fault ''collection inventory already exists'')"
    by (simp add: call_tool_try_def run_query_def execute_query_def getitem_def mem_env_def
          mem_getitem_def mem_create_collection_def mem_server_def demo_db_def)
  from call_tool_never_raises [of mem_env "mem_server demo_db []" "''create-collection''"
         "Some [(''name'', PStr ''inventory'')]"]
  obtain t where
    "fst (handle_call_tool mem_env (mem_server demo_db []) ''create-collection''
            (Some [(''name'', PStr ''inventory'')])) = [TextContent t]"
    and "\<forall>e. fst (call_tool_try mem_env (mem_server demo_db []) ''create-collection''
                   (Some [(''name'', PStr ''inventory'')])) = Inl e
              \<longrightarrow> t = ''Error: '' @ exn_str (isprintable mem_env) e"
    by blast
  with raised show ?thesis by simp
qed

theorem append_insight_steps_witness:
  "handle_call_tool mem_env (mem_server demo_db [PStr ''Returns fell'']) ''append-insight''
      (Some [(''insight'', PStr ''Sales spike in Q4'')])
     = ([TextContent ''Insight added to memo''],
        \<lparr>db = demo_db, insights = [PStr ''Returns fell'', PStr ''Sales spike in Q4''],
         session = [''memo://insights''],
         effects = [LedgerAppend (PStr ''Sales spike in Q4''),
                    MemoSynthesized
                      (synthesize_memo (isprintable mem_env)
                         [PStr ''Returns fell'', PStr ''Sales spike in Q4'']),
                    ResourceUpdated ''memo://insights'']\<rparr>)
   \<and> handle_call_tool mem_env (mem_server demo_db [PStr ''Returns fell'']) ''append-insight''
        (Some [(''note'', PStr ''Sales spike in Q4'')])
     = ([TextContent ''Error: Missing insight argument''],
        mem_server demo_db [PStr ''Returns fell''])"
  using append_insight_steps [of "Some [(''insight'', PStr ''Sales spike in Q4'')]"
          mem_env "mem_server demo_db [PStr ''Returns fell'']", THEN conjunct2]
        append_insight_steps [of "Some [(''note'', PStr ''Sales spike in Q4'')]"
          mem_env "mem_server demo_db [PStr ''Returns fell'']", THEN conjunct1]
  by (simp add: mem_env_def mem_server_def)

theorem append_insight_not_rolled_back_witness:
  "fst (handle_call_tool closed_env (mem_server demo_db []) ''append-insight''
          (Some [(''insight'', PStr ''Sales spike in Q4'')]))
     = [TextContent ''Error: Connection closed'']
   \<and> insights (snd (handle_call_tool closed_env (mem_server demo_db []) ''append-insight''
          (Some [(''insight'', PStr ''Sales spike in Q4'')])))
     = [PStr ''Sales spike in Q4'']
   \<and> insights (snd (handle_call_tool closed_env (mem_server demo_db []) ''append-insight''
          (Some [(''note'', PStr ''Sales spike in Q4'')])))
     = []"
  using append_insight_not_rolled_back [of "Some [(''insight'', PStr ''Sales spike in Q4'')]"
          closed_env "mem_server demo_db []", THEN conjunct1]
        append_insight_not_rolled_back [of "Some [(''note'', PStr ''Sales spike in Q4'')]"
          closed_env "mem_server demo_db []", THEN conjunct2]
  by (simp add: closed_env_def mem_env_def mem_server_def)

theorem unknown_tool_error_witness:
  "handle_call_tool mem_env (mem_server demo_db []) ''drop-collection''
      (Some [(''name'', PStr ''inventory'')])
     = ([TextContent ''Error: Unknown tool: drop-collection''], mem_server demo_db [])"
  using unknown_tool_error [of "''drop-collection''" "Some [(''name'', PStr ''inventory'')]"
          "[(''name'', PStr ''inventory'')]" mem_env "mem_server demo_db []"]
  by (simp add: handle_list_tools_def)

theorem missing_arguments_error_witness:
  "handle_call_tool mem_env (mem_server demo_db []) ''find'' None
     = ([TextContent ''Error: Missing arguments''], mem_server demo_db [])
   \<and> handle_call_tool mem_env (mem_server demo_db []) ''find'' (Some [])
     = ([TextContent ''Error: Missing arguments''], mem_server demo_db [])
   \<and> handle_call_tool mem_env (mem_server demo_db []) ''list-collections'' None
     = ([TextContent ([CHR ''['', CHR 0x27] @ ''inventory'' @ [CHR 0x27, CHR '']''])],
        mem_server demo_db [])"
  using missing_arguments_error [of "''find''" None mem_env "mem_server demo_db []",
          THEN conjunct1]
        missing_arguments_error [of "''find''" "Some []" mem_env "mem_server demo_db []",
          THEN conjunct1]
        missing_arguments_error [of "''find''" None mem_env "mem_server demo_db []",
          THEN conjunct2, THEN conjunct1]
  by (simp add: mem_env_def mem_server_def demo_db_def repr_str_def repr_char_def Let_def)

theorem insert_ids_as_strings_witness:
  "execute_query mem_env demo_db
      (PList [PDict [(''orderId'', PStr ''1'')], PDict [(''orderId'', PStr ''2'')]])
      ''insert'' (PStr ''orders'')
     = (Inr [PDict [(''inserted_ids'', PList [PStr ''0'', PStr ''1''])]],
        demo_db @ [(''orders'', [PDict [(''orderId'', PStr ''1''), (''_id'', PInt 0)],
                                 PDict [(''orderId'', PStr ''2''), (''_id'', PInt 1)]])])
   \<and> execute_query mem_env demo_db (PDict [(''orderId'', PStr ''1'')])
        ''insert'' (PStr ''orders'')
     = (Inr [PDict [(''inserted_id'', PStr ''0'')]],
        demo_db @ [(''orders'', [PDict [(''orderId'', PStr ''1''), (''_id'', PInt 0)]])])"
proof -
  have g: "db_getitem mem_env demo_db (PStr ''orders'') = None"
    by (simp add: mem_env_def mem_getitem_def)
  have many:
    "coll_insert_many mem_env demo_db (PStr ''orders'')
        [PDict [(''orderId'', PStr ''1'')], PDict [(''orderId'', PStr ''2'')]]
       = (Inr [PInt 0, PInt 1],
          demo_db @ [(''orders'', [PDict [(''orderId'', PStr ''1''), (''_id'', PInt 0)],
                                   PDict [(''orderId'', PStr ''2''), (''_id'', PInt 1)]])])"
    by (simp add: mem_env_def mem_insert_many_def mem_docs_def mem_put_def demo_db_def Let_def
          upt_rec)
  have one:
    "coll_insert_one mem_env demo_db (PStr ''orders'') (PDict [(''orderId'', PStr ''1'')])
       = (Inr (PInt 0),
          demo_db @ [(''orders'', [PDict [(''orderId'', PStr ''1''), (''_id'', PInt 0)]])])"
    by (simp add: mem_env_def mem_insert_one_def mem_docs_def mem_put_def demo_db_def Let_def)
  have ids: "id_str mem_env (PInt 0) = ''0''" "id_str mem_env (PInt 1) = ''1''"
    by (simp_all add: mem_env_def int_str_small)
  from insert_ids_as_strings [of mem_env demo_db "PStr ''orders''"] g
  have "execute_query mem_env demo_db
          (PList [PDict [(''orderId'', PStr ''1'')], PDict [(''orderId'', PStr ''2'')]])
          ''insert'' (PStr ''orders'')
        = (Inr [PDict [(''inserted_ids'',
                  PList (map (\<lambda>i. PStr (id_str mem_env i)) [PInt 0, PInt 1]))]],
           demo_db @ [(''orders'', [PDict [(''orderId'', PStr ''1''), (''_id'', PInt 0)],
                                    PDict [(''orderId'', PStr ''2''), (''_id'', PInt 1)]])])"
    and "execute_query mem_env demo_db (PDict [(''orderId'', PStr ''1'')])
          ''insert'' (PStr ''orders'')
        = (Inr [PDict [(''inserted_id'', PStr (id_str mem_env (PInt 0)))]],
           demo_db @ [(''orders'', [PDict [(''orderId'', PStr ''1''), (''_id'', PInt 0)]])])"
    using many one by blast+
  then show ?thesis by (simp add: ids)
qed

theorem missing_field_key_error_witness:
  "handle_call_tool mem_env (mem_server demo_db []) ''find''
      (Some [(''collection'', PStr ''inventory'')])
     = ([TextContent (''Error: '' @ [CHR 0x27] @ ''query'' @ [CHR 0x27])],
        mem_server demo_db [])"
  using missing_field_key_error
          [of "\<lparr>tool_name = ''find'', properties = [''collection'', ''query''],
                required = [''collection'', ''query'']\<rparr>"
              "[(''collection'', PStr ''inventory'')]" mem_env "mem_server demo_db []"]
  by (auto simp: handle_list_tools_def)

theorem read_resource_fresh_or_fault_witness:
  "(\<exists>memo.
      fst (handle_read_resource mem_env
             (snd (handle_call_tool mem_env (mem_server demo_db []) ''append-insight''
                     (Some [(''insight'', PStr ''Sales spike in Q4'')])))
             \<lparr>scheme = ''memo'', url_str = ''memo://insights''\<rparr>)
        = Inr memo
      \<and> lines_of memo =
          [chart @ '' Business Intelligence Memo '' @ chart, [], ''Key Insights Discovered:'', [],
           ''- Sales spike in Q4''])
   \<and> fst (handle_read_resource mem_env (mem_server demo_db [])
             \<lparr>scheme = ''memo'', url_str = ''memo://insights''\<rparr>)
     = Inr ''No business insights have been discovered yet.''
   \<and> handle_read_resource mem_env (mem_server demo_db [])
        \<lparr>scheme = ''file'', url_str = ''file://insights''\<rparr>
     = (Inl (ValueError ''Unsupported URI scheme: file''), mem_server demo_db [])
   \<and> handle_read_resource mem_env (mem_server demo_db [])
        \<lparr>scheme = ''memo'', url_str = ''memo://notes''\<rparr>
     = (Inl (ValueError ''Unknown resource path: notes''), mem_server demo_db [])"
proof -
  have u: "scheme \<lparr>scheme = ''memo'', url_str = ''memo://insights''\<rparr> = ''memo''
           \<and> url_str \<lparr>scheme = ''memo'', url_str = ''memo://insights''\<rparr> = ''memo://insights''"
    by simp
  have m: "map_of [(''insight'', PStr ''Sales spike in Q4'')] ''insight''
             = Some (PStr ''Sales spike in Q4'')"
    by simp
  note ok = read_resource_fresh_or_fault
              [of "\<lparr>scheme = ''memo'', url_str = ''memo://insights''\<rparr>"
                  mem_env "mem_server demo_db []", THEN conjunct1, THEN mp, OF u]
  note after = ok [THEN conjunct2, THEN conjunct2, rule_format, OF m]
  note empty = ok [THEN conjunct2, THEN conjunct1]
  note faults =
    read_resource_fresh_or_fault [of "\<lparr>scheme = ''file'', url_str = ''file://insights''\<rparr>"
      mem_env "mem_server demo_db []", THEN conjunct2, THEN conjunct1]
    read_resource_fresh_or_fault [of "\<lparr>scheme = ''memo'', url_str = ''memo://notes''\<rparr>"
      mem_env "mem_server demo_db []", THEN conjunct2, THEN conjunct2]
  from after empty faults show ?thesis
    by (simp add: mem_server_def nl_def)
qed

lemma mem_docs_put:
  "mem_docs (mem_put w c ds) c = (case c of PStr n \<Rightarrow> ds | _ \<Rightarrow> mem_docs w c)"
  by (cases c) (simp_all add: mem_docs_def mem_put_def update_conv')

lemma mem_docs_not_str: "(\<forall>n. c \<noteq> PStr n) \<Longrightarrow> mem_docs w c = []"
  by (cases c) (simp_all add: mem_docs_def)

lemma mem_docs_after:
  "(\<forall>n. c \<noteq> PStr n) \<longrightarrow> ds = [] \<Longrightarrow> mem_docs (mem_put w c ds) c = ds"
  by (cases c) (simp_all add: mem_docs_put mem_docs_not_str)

lemma mem_update_many_eq:
  assumes "mem_update_many w c f u = (Inr n, w')"
  shows "\<exists>sets. u = PDict [(''$set'', PDict sets)]
           \<and> w' = mem_put w c (map (\<lambda>d. if mem_matches f d then mem_set_fields sets d else d)
                                   (mem_docs w c))
           \<and> n = int (length (filter (\<lambda>d. mem_matches f d \<and> mem_set_fields sets d \<noteq> d)
                                (mem_docs w c)))"
  using assms
  by (auto simp: mem_update_many_def Let_def
           split: pyval.splits list.splits prod.splits if_splits)

lemma mem_env_multi_document:
  "multi_document_store mem_env mem_docs mem_matches mem_apply"
  unfolding multi_document_store_def
proof (intro conjI allI impI)
  fix w c f u n w'
  assume "coll_update_many mem_env w c f u = (Inr n, w')"
  then have "mem_update_many w c f u = (Inr n, w')" by (simp add: mem_env_def)
  then obtain sets where u: "u = PDict [(''$set'', PDict sets)]"
    and w': "w' = mem_put w c (map (\<lambda>d. if mem_matches f d then mem_set_fields sets d else d)
                                   (mem_docs w c))"
    and n: "n = int (length (filter (\<lambda>d. mem_matches f d \<and> mem_set_fields sets d \<noteq> d)
                                (mem_docs w c)))"
    using mem_update_many_eq by blast
  have ap: "\<And>d. mem_apply u d = mem_set_fields sets d"
    by (simp add: u mem_apply_def)
  show "mem_docs w' c = map (\<lambda>d. if mem_matches f d then mem_apply u d else d) (mem_docs w c)"
    unfolding w' ap by (rule mem_docs_after) (simp add: mem_docs_not_str)
  show "n = int (length (filter (\<lambda>d. mem_matches f d \<and> mem_apply u d \<noteq> d) (mem_docs w c)))"
    unfolding ap by (rule n)
next
  fix w c f n w'
  assume "coll_delete_many mem_env w c f = (Inr n, w')"
  then have d: "w' = mem_put w c (filter (\<lambda>d. \<not> mem_matches f d) (mem_docs w c))"
    "n = int (length (filter (mem_matches f) (mem_docs w c)))"
    by (auto simp: mem_env_def mem_delete_many_def Let_def)
  show "mem_docs w' c = filter (\<lambda>d. \<not> mem_matches f d) (mem_docs w c)"
    unfolding d by (rule mem_docs_after) (simp add: mem_docs_not_str)
  show "n = int (length (filter (mem_matches f) (mem_docs w c)))" by (rule d)
qed

theorem update_delete_many_witness:
  "execute_query mem_env demo_db
      (PDict [(''filter'', PDict [(''product'', PStr ''Widget'')]),
              (''update'', PDict [(''$set'', PDict [(''stock'', PInt 0)])])])
      ''update'' (PStr ''inventory'')
     = (Inr [PDict [(''modified_count'', PInt 2)]],
        [(''inventory'',
          [PDict [(''product'', PStr ''Widget''), (''stock'', PInt 0)],
           PDict [(''product'', PStr ''Gadget''), (''stock'', PInt 1)],
           PDict [(''product'', PStr ''Widget''), (''stock'', PInt 0)]])])
   \<and> execute_query mem_env demo_db (PDict [(''product'', PStr ''Widget'')])
        ''delete'' (PStr ''inventory'')
     = (Inr [PDict [(''deleted_count'', PInt 2)]],
        [(''inventory'', [PDict [(''product'', PStr ''Gadget''), (''stock'', PInt 1)]])])"
proof -
  have g: "multi_document_store mem_env mem_docs mem_matches mem_apply
           \<and> db_getitem mem_env demo_db (PStr ''inventory'') = None"
    using mem_env_multi_document by (simp add: mem_env_def mem_getitem_def)
  have upd:
    "coll_update_many mem_env demo_db (PStr ''inventory'') (PDict [(''product'', PStr ''Widget'')])
        (PDict [(''$set'', PDict [(''stock'', PInt 0)])])
       = (Inr 2,
          [(''inventory'',
            [PDict [(''product'', PStr ''Widget''), (''stock'', PInt 0)],
             PDict [(''product'', PStr ''Gadget''), (''stock'', PInt 1)],
             PDict [(''product'', PStr ''Widget''), (''stock'', PInt 0)]])])"
    by (simp add: mem_env_def mem_update_many_def mem_docs_def mem_put_def demo_db_def Let_def)
  have del:
    "coll_delete_many mem_env demo_db (PStr ''inventory'') (PDict [(''product'', PStr ''Widget'')])
       = (Inr 2,
          [(''inventory'', [PDict [(''product'', PStr ''Gadget''), (''stock'', PInt 1)]])])"
    by (simp add: mem_env_def mem_delete_many_def mem_docs_def mem_put_def demo_db_def Let_def)
  have cu: "int (length (filter (\<lambda>d. mem_matches (PDict [(''product'', PStr ''Widget'')]) d
                \<and> mem_apply (PDict [(''$set'', PDict [(''stock'', PInt 0)])]) d \<noteq> d)
              (mem_docs demo_db (PStr ''inventory'')))) = 2"
    by (simp add: mem_docs_def demo_db_def mem_apply_def)
  have cd: "int (length (filter (mem_matches (PDict [(''product'', PStr ''Widget'')]))
              (mem_docs demo_db (PStr ''inventory'')))) = 2"
    by (simp add: mem_docs_def demo_db_def)
  note t = update_delete_many [of mem_env mem_docs mem_matches mem_apply demo_db
             "PStr ''inventory''", THEN mp, OF g]
  have u: "execute_query mem_env demo_db
      (PDict [(''filter'', PDict [(''product'', PStr ''Widget'')]),
              (''update'', PDict [(''$set'', PDict [(''stock'', PInt 0)])])])
      ''update'' (PStr ''inventory'')
     = (Inr [PDict [(''modified_count'', PInt 2)]],
        [(''inventory'',
          [PDict [(''product'', PStr ''Widget''), (''stock'', PInt 0)],
           PDict [(''product'', PStr ''Gadget''), (''stock'', PInt 1)],
           PDict [(''product'', PStr ''Widget''), (''stock'', PInt 0)]])])"
    using t [of "PDict [(''filter'', PDict [(''product'', PStr ''Widget'')]),
                        (''update'', PDict [(''$set'', PDict [(''stock'', PInt 0)])])]",
             THEN conjunct1, rule_format, of "PDict [(''product'', PStr ''Widget'')]"
               "PDict [(''$set'', PDict [(''stock'', PInt 0)])]"] upd cu
    by simp
  have d: "execute_query mem_env demo_db (PDict [(''product'', PStr ''Widget'')])
        ''delete'' (PStr ''inventory'')
     = (Inr [PDict [(''deleted_count'', PInt 2)]],
        [(''inventory'', [PDict [(''product'', PStr ''Gadget''), (''stock'', PInt 1)]])])"
    using t [of "PDict [(''product'', PStr ''Widget'')]", THEN conjunct2, rule_format] del cd
    by simp
  from u d show ?thesis by simp
qed

end
